theory Spec2Isabelle
  imports Complex_Main "HOL-Library.Log_Nat"
begin

section \<open>Tables\<close>

text \<open>
  The script \<^verbatim>\<open>prepare_training_data.py\<close> works on pandas data frames. A frame is
  modelled by its ordered column labels and its rows; a row maps a label to a cell. A cell
  is null (pandas' NaN and None), a string or a number. Floating-point numbers are read as
  reals: the script compares, selects and clips them, none of which rounds; the one step that
  rounds is the cast of integers to float64 in the merge, which is written out.
  The pandas operations the script calls are modelled by their documented meaning on frames
  as \<^verbatim>\<open>read_parquet\<close> returns them, with distinct column labels and one type for each
  column: null keys compare equal in \<^verbatim>\<open>drop_duplicates\<close> and in \<^verbatim>\<open>merge\<close>, a left
  merge keeps the order of the left rows, raises on key columns of incompatible types and on
  labels that its suffix makes equal, and casts integers when it introduces nulls; the writer
  raises on a column that holds strings and numbers. The type of a column is read off its
  cells: a column with a string cell is a column of strings, every other column counts as
  numeric, a column of nulls included.
  An exception that \<^verbatim>\<open>main\<close> does not catch ends the process with status 1; the model
  returns it as an error value like the failures that \<^verbatim>\<open>main\<close> reports itself.
\<close>

datatype cell = Null | Str string | Num real

type_synonym row = "string \<rightharpoonup> cell"

record table =
  columns :: "string list"
  rows :: "row list"

datatype error =
    ReadError
  | EmptyEvaluations
  | MissingColumn string string
  | ValueError
  | TypeError
  | KeyError string
  | MergeError
  | ArrowError
  | NoTrainableRows string
  | WriteError

definition cell_at :: "row \<Rightarrow> string \<Rightarrow> cell" where
  "cell_at r c = (case r c of None \<Rightarrow> Null | Some v \<Rightarrow> v)"

definition is_str :: "cell \<Rightarrow> bool" where
  "is_str v = (case v of Str _ \<Rightarrow> True | _ \<Rightarrow> False)"

definition is_num :: "cell \<Rightarrow> bool" where
  "is_num v = (case v of Num _ \<Rightarrow> True | _ \<Rightarrow> False)"

definition notna :: "cell \<Rightarrow> bool" where
  "notna v = (v \<noteq> Null)"

text \<open>\<^verbatim>\<open>df.empty\<close>: true when either axis has length zero.\<close>

definition df_empty :: "table \<Rightarrow> bool" where
  "df_empty t = (rows t = [] \<or> columns t = [])"

text \<open>\<^verbatim>\<open>df.get(c, pd.Series(...))\<close> read row by row: the column when the frame has it,
  the empty default otherwise, which aligns to null in every row.\<close>

definition column_get :: "table \<Rightarrow> string \<Rightarrow> row \<Rightarrow> cell" where
  "column_get t c r = (if c \<in> set (columns t) then cell_at r c else Null)"

text \<open>\<^verbatim>\<open>df[c] = v\<close> for a scalar \<open>v\<close>, and for values computed row by row. A new
  label is appended; an existing one keeps its place.\<close>

definition assign_rowwise :: "string \<Rightarrow> (row \<Rightarrow> cell) \<Rightarrow> table \<Rightarrow> table" where
  "assign_rowwise c f t =
     \<lparr>columns = (if c \<in> set (columns t) then columns t else columns t @ [c]),
      rows = map (\<lambda>r. r(c \<mapsto> f r)) (rows t)\<rparr>"

definition assign_scalar :: "string \<Rightarrow> cell \<Rightarrow> table \<Rightarrow> table" where
  "assign_scalar c v t = assign_rowwise c (\<lambda>_. v) t"

text \<open>\<^verbatim>\<open>df.drop(columns=[c])\<close>: every column with the label goes; a label that the
  frame does not have raises KeyError.\<close>

definition drop_column :: "string \<Rightarrow> table \<Rightarrow> error + table" where
  "drop_column c t =
     (if c \<in> set (columns t)
      then Inr \<lparr>columns = filter (\<lambda>x. x \<noteq> c) (columns t),
                rows = map (\<lambda>r. r(c := None)) (rows t)\<rparr>
      else Inl (KeyError c))"

text \<open>\<^verbatim>\<open>df[mask]\<close> for a mask computed row by row.\<close>

definition filter_rows :: "(row \<Rightarrow> bool) \<Rightarrow> table \<Rightarrow> table" where
  "filter_rows p t = \<lparr>columns = columns t, rows = filter p (rows t)\<rparr>"

text \<open>\<^verbatim>\<open>df[[c1, ..., cn]]\<close>: a missing label raises KeyError.\<close>

definition select_columns :: "string list \<Rightarrow> table \<Rightarrow> error + table" where
  "select_columns cs t =
     (case filter (\<lambda>c. c \<notin> set (columns t)) cs of
        c # _ \<Rightarrow> Inl (KeyError c)
      | [] \<Rightarrow> Inr \<lparr>columns = cs, rows = map (\<lambda>r. r |` set cs) (rows t)\<rparr>)"

definition endswith :: "string \<Rightarrow> string \<Rightarrow> bool" where
  "endswith s suf = (length suf \<le> length s \<and> drop (length s - length suf) s = suf)"

section \<open>Key normalizer\<close>

text \<open>Lines 84 to 97 of \<^verbatim>\<open>main\<close>: the evaluation frame must be non-empty and carry both
  key columns, the outcome frame must carry \<^verbatim>\<open>opportunityId\<close>; an outcome frame without
  \<^verbatim>\<open>tenantId\<close> gets the tenant of the first evaluation row in every row.\<close>

definition first_missing :: "string list \<Rightarrow> table \<Rightarrow> string option" where
  "first_missing cs t = (case filter (\<lambda>c. c \<notin> set (columns t)) cs of [] \<Rightarrow> None | c # _ \<Rightarrow> Some c)"

definition normalize_keys :: "table \<Rightarrow> table \<Rightarrow> error + table" where
  "normalize_keys evals out =
     (if df_empty evals then Inl EmptyEvaluations
      else case first_missing [''tenantId'', ''opportunityId''] evals of
        Some c \<Rightarrow> Inl (MissingColumn ''risk_evaluations'' c)
      | None \<Rightarrow>
        if ''opportunityId'' \<notin> set (columns out) then Inl (MissingColumn ''ml_outcomes'' ''opportunityId'')
        else if ''tenantId'' \<notin> set (columns out) then
          Inr (assign_scalar ''tenantId''
                 (case rows evals of
                    r # _ \<Rightarrow> if ''tenantId'' \<in> set (columns evals) then cell_at r ''tenantId'' else Str ''''
                  | [] \<Rightarrow> Str '''')
                 out)
        else Inr out)"

section \<open>Deduplicating joiner\<close>

definition key_of :: "string list \<Rightarrow> row \<Rightarrow> cell list" where
  "key_of ks r = map (cell_at r) ks"

text \<open>\<^verbatim>\<open>drop_duplicates(subset=..., keep="first")\<close>: a row stays when no earlier row had
  its key.\<close>

fun dedup_first :: "string list \<Rightarrow> cell list list \<Rightarrow> row list \<Rightarrow> row list" where
  "dedup_first ks seen [] = []"
| "dedup_first ks seen (r # rs) =
     (if key_of ks r \<in> set seen then dedup_first ks seen rs
      else r # dedup_first ks (key_of ks r # seen) rs)"

definition drop_duplicates :: "string list \<Rightarrow> table \<Rightarrow> table" where
  "drop_duplicates ks t = \<lparr>columns = columns t, rows = dedup_first ks [] (rows t)\<rparr>"

text \<open>\<^verbatim>\<open>left.merge(right, on=keys, how="left", suffixes=("", "_out"))\<close>.

  The merge first compares the types of the key columns and raises ValueError when one is a
  column of strings and the other a column of numbers, unless exactly one frame has no rows.
  A frame read from a Parquet file has typed columns: a column with a string cell is a column
  of strings; a column without one counts as numeric, which is also what the back-fill of a
  null tenant gives (a column of NaN).\<close>

definition string_column :: "table \<Rightarrow> string \<Rightarrow> bool" where
  "string_column t c = list_ex (\<lambda>r. is_str (cell_at r c)) (rows t)"

definition incompatible_keys :: "string list \<Rightarrow> table \<Rightarrow> table \<Rightarrow> bool" where
  "incompatible_keys keys left right =
     (rows left \<noteq> [] \<and> rows right \<noteq> []
      \<and> list_ex (\<lambda>k. string_column left k \<noteq> string_column right k) keys)"

text \<open>The labels of the result: the left columns, then the right columns that are not keys,
  a right label that the left frame also has getting the suffix. When the suffix makes two
  right labels equal, the merge raises MergeError.\<close>

definition right_label :: "string list \<Rightarrow> string \<Rightarrow> string" where
  "right_label lcols c = (if c \<in> set lcols then c @ ''_out'' else c)"

definition merged_row :: "string list \<Rightarrow> string list \<Rightarrow> row \<Rightarrow> (string \<Rightarrow> cell) \<Rightarrow> row" where
  "merged_row lcols rcols l rv =
     map_of (map (\<lambda>c. (c, cell_at l c)) lcols @ map (\<lambda>c. (right_label lcols c, rv c)) rcols)"

text \<open>When some left row has no right row, the right columns receive nulls, and a right column
  of integers becomes a column of float64: an integer is exact up to \<open>2 ^ 53\<close> and is rounded
  to 53 significant bits above, ties to even. A cell that is a float64 already stays as it
  is, and so does every cell when all left rows are matched.\<close>

definition float64_of_int :: "int \<Rightarrow> int" where
  "float64_of_int n =
     (let m = \<bar>n\<bar>; k = nat (bitlen m - 53) in
      if k = 0 then n
      else
        let q = m div 2 ^ k; r = m mod 2 ^ k; h = 2 ^ (k - 1) in
        sgn n * ((if h < r \<or> (r = h \<and> odd q) then q + 1 else q) * 2 ^ k))"

definition upcast_cell :: "cell \<Rightarrow> cell" where
  "upcast_cell v =
     (case v of
        Num x \<Rightarrow> if x = of_int \<lfloor>x\<rfloor> then Num (of_int (float64_of_int \<lfloor>x\<rfloor>)) else Num x
      | _ \<Rightarrow> v)"

definition unmatched :: "string list \<Rightarrow> row list \<Rightarrow> row \<Rightarrow> bool" where
  "unmatched keys rs l = (filter (\<lambda>r. key_of keys r = key_of keys l) rs = [])"

definition promote :: "string list \<Rightarrow> table \<Rightarrow> table \<Rightarrow> cell \<Rightarrow> cell" where
  "promote keys left right v =
     (if list_ex (unmatched keys (rows right)) (rows left) then upcast_cell v else v)"

text \<open>The frame of the merge: every left row gives one row for each right row with its key,
  in order, and one row with null right cells when there is none.\<close>

definition merged_frame :: "string list \<Rightarrow> table \<Rightarrow> table \<Rightarrow> table" where
  "merged_frame keys left right =
     (let rcols = filter (\<lambda>c. c \<notin> set keys) (columns right) in
      \<lparr>columns = columns left @ map (right_label (columns left)) rcols,
       rows = concat (map (\<lambda>l.
                 case filter (\<lambda>r. key_of keys r = key_of keys l) (rows right) of
                   [] \<Rightarrow> [merged_row (columns left) rcols l (\<lambda>_. Null)]
                 | ms \<Rightarrow> map (\<lambda>r. merged_row (columns left) rcols l
                                  (\<lambda>c. promote keys left right (cell_at r c))) ms)
               (rows left))\<rparr>)"

definition merge_left :: "string list \<Rightarrow> table \<Rightarrow> table \<Rightarrow> error + table" where
  "merge_left keys left right =
     (if incompatible_keys keys left right then Inl ValueError
      else if \<not> distinct (map (right_label (columns left))
                             (filter (\<lambda>c. c \<notin> set keys) (columns right)))
      then Inl MergeError
      else Inr (merged_frame keys left right))"

text \<open>Lines 108 to 110: the loop runs over the labels the merged frame had before it, and
  drops every column whose label ends in \<^verbatim>\<open>_out\<close>. When a left column already carried
  the label that the suffix gives a right one, the label stands twice in the list: the first
  pass drops both columns and the second raises KeyError.\<close>

fun drop_loop :: "string list \<Rightarrow> table \<Rightarrow> error + table" where
  "drop_loop [] merged = Inr merged"
| "drop_loop (c # cs) merged =
     (if endswith c ''_out''
      then (case drop_column c merged of Inl e \<Rightarrow> Inl e | Inr m \<Rightarrow> drop_loop cs m)
      else drop_loop cs merged)"

definition drop_out_suffixed :: "table \<Rightarrow> error + table" where
  "drop_out_suffixed merged = drop_loop (columns merged) merged"

definition join_keys :: "string list" where
  "join_keys = [''tenantId'', ''opportunityId'']"

definition joiner :: "table \<Rightarrow> table \<Rightarrow> error + table" where
  "joiner evals out =
     (case normalize_keys evals out of
        Inl e \<Rightarrow> Inl e
      | Inr out' \<Rightarrow>
          (case merge_left join_keys evals (drop_duplicates join_keys out') of
             Inl e \<Rightarrow> Inl e
           | Inr merged \<Rightarrow> drop_out_suffixed merged))"

section \<open>Target deriver\<close>

text \<open>Lines 113 to 127. \<^verbatim>\<open>np.where\<close> over the default empty series has length zero,
  and assigning it to a frame with rows raises ValueError; \<^verbatim>\<open>clip\<close> on a column that
  holds a string raises TypeError. An empty series assigned as a column aligns to nulls.\<close>

definition target_win_of :: "cell \<Rightarrow> cell" where
  "target_win_of outcome =
     (if outcome = Str ''won'' then Num 1 else if outcome = Str ''lost'' then Num 0 else Null)"

definition clip01 :: "cell \<Rightarrow> cell" where
  "clip01 v = (case v of Num x \<Rightarrow> Num (min 1 (max 0 x)) | _ \<Rightarrow> v)"

definition outcome_risk :: "cell \<Rightarrow> cell" where
  "outcome_risk outcome =
     (if outcome = Str ''lost'' then Num 1 else if outcome = Str ''won'' then Num 0 else Null)"

definition derive_targets :: "table \<Rightarrow> error + table" where
  "derive_targets merged =
     (if ''outcome'' \<notin> set (columns merged) \<and> rows merged \<noteq> [] then Inl ValueError
      else if ''riskScore'' \<in> set (columns merged)
              \<and> list_ex (\<lambda>r. is_str (cell_at r ''riskScore'')) (rows merged) then Inl TypeError
      else
        let m1 = assign_rowwise ''target_win''
                   (\<lambda>r. target_win_of (column_get merged ''outcome'' r)) merged;
            m2 = assign_rowwise ''target_risk''
                   (\<lambda>r. clip01 (column_get m1 ''riskScore'' r)) m1;
            m3 = assign_rowwise ''target_risk''
                   (\<lambda>r. if notna (cell_at r ''target_risk'') then cell_at r ''target_risk''
                        else outcome_risk (column_get m2 ''outcome'' r)) m2
        in Inr (assign_rowwise ''is_closed''
                  (\<lambda>r. if notna (column_get m3 ''outcome'' r) then Num 1 else Num 0) m3))"

text \<open>Lines 129 and 130: the optional tenant filter; an empty string counts as absent.\<close>

definition tenant_filter :: "string option \<Rightarrow> table \<Rightarrow> table" where
  "tenant_filter tid merged =
     (case tid of
        None \<Rightarrow> merged
      | Some t \<Rightarrow>
          if t \<noteq> [] \<and> ''tenantId'' \<in> set (columns merged)
          then filter_rows (\<lambda>r. cell_at r ''tenantId'' = Str t) merged
          else merged)"

section \<open>Mode projector\<close>

datatype model_id = Outcome_joined | Risk_scoring | Win_probability

definition PLACEHOLDER :: "(string \<times> cell) list" where
  "PLACEHOLDER =
     [(''probability'', Num 0.5),
      (''days_to_close'', Num 0),
      (''stage_encoded'', Num 0),
      (''industry_encoded'', Num 0),
      (''days_since_last_activity'', Num 999),
      (''activity_count_30d'', Num 0),
      (''stakeholder_count'', Num 0)]"

definition put_placeholders :: "table \<Rightarrow> table" where
  "put_placeholders t = fold (\<lambda>(k, v) m. assign_scalar k v m) PLACEHOLDER t"

definition fillna :: "cell \<Rightarrow> cell \<Rightarrow> cell" where
  "fillna d v = (if v = Null then d else v)"

definition fill_amount :: "table \<Rightarrow> table" where
  "fill_amount t =
     (if ''amount'' \<in> set (columns t)
      then assign_rowwise ''amount'' (\<lambda>r. fillna (Num 0) (cell_at r ''amount'')) t
      else assign_scalar ''amount'' (Num 0) t)"

text \<open>\<^verbatim>\<open>df.dropna(subset=[c])\<close>; a label the frame lacks raises KeyError.\<close>

definition dropna :: "string \<Rightarrow> table \<Rightarrow> error + table" where
  "dropna c t =
     (if c \<in> set (columns t) then Inr (filter_rows (\<lambda>r. notna (cell_at r c)) t)
      else Inl (KeyError c))"

definition keep_base :: "string list" where
  "keep_base =
     [''tenantId'', ''opportunityId'', ''riskScore'', ''categoryScores'', ''timestamp'',
      ''outcome'', ''amount'', ''closeDate'', ''recordedAt'', ''target_risk'', ''target_win'',
      ''is_closed'']"

definition list_index :: "'a \<Rightarrow> 'a list \<Rightarrow> nat" where
  "list_index x xs = length (takeWhile (\<lambda>y. y \<noteq> x) xs)"

definition list_insert :: "nat \<Rightarrow> 'a \<Rightarrow> 'a list \<Rightarrow> 'a list" where
  "list_insert i x xs = take i xs @ x # drop i xs"

definition keep_list :: "table \<Rightarrow> string list" where
  "keep_list merged =
     (if ''evaluationId'' \<in> set (columns merged)
      then list_insert (list_index ''timestamp'' keep_base + 1) ''evaluationId'' keep_base
      else keep_base)"

definition project_outcome_joined :: "table \<Rightarrow> error + table" where
  "project_outcome_joined merged =
     (let keep = keep_list merged;
          m = fold (\<lambda>c m. if c \<notin> set (columns m) \<and> c \<noteq> ''evaluationId''
                           then assign_scalar c Null m else m) keep merged
      in select_columns (filter (\<lambda>c. c \<in> set (columns m)) keep) m)"

definition req_risk :: "string list" where
  "req_risk =
     [''amount'', ''probability'', ''days_to_close'', ''stage_encoded'', ''industry_encoded'',
      ''days_since_last_activity'', ''activity_count_30d'', ''stakeholder_count'', ''target_risk'']"

definition req_win :: "string list" where
  "req_win =
     [''amount'', ''probability'', ''days_to_close'', ''stage_encoded'', ''industry_encoded'',
      ''days_since_last_activity'', ''activity_count_30d'', ''stakeholder_count'', ''target_win'',
      ''is_closed'']"

definition risk_score_latest :: "table \<Rightarrow> table" where
  "risk_score_latest t =
     (if ''riskScore'' \<in> set (columns t)
      then assign_rowwise ''risk_score_latest'' (\<lambda>r. fillna (Num 0.5) (cell_at r ''riskScore'')) t
      else assign_scalar ''risk_score_latest'' (Num 0.5) t)"

definition project_risk_scoring :: "table \<Rightarrow> error + table" where
  "project_risk_scoring merged =
     (case dropna ''target_risk'' merged of
        Inl e \<Rightarrow> Inl e
      | Inr m \<Rightarrow>
          if df_empty m then Inl (NoTrainableRows ''target_risk'')
          else select_columns ([''tenantId'', ''opportunityId''] @ req_risk @ [''risk_score_latest''])
                 (risk_score_latest (fill_amount (put_placeholders m))))"

definition project_win_probability :: "table \<Rightarrow> error + table" where
  "project_win_probability merged =
     (if ''is_closed'' \<notin> set (columns merged) then Inl (KeyError ''is_closed'')
      else case dropna ''target_win'' (filter_rows (\<lambda>r. cell_at r ''is_closed'' = Num 1) merged) of
        Inl e \<Rightarrow> Inl e
      | Inr m \<Rightarrow>
          if df_empty m then Inl (NoTrainableRows ''target_win'')
          else select_columns ([''tenantId'', ''opportunityId''] @ req_win)
                 (fill_amount (put_placeholders m)))"

fun project :: "model_id \<Rightarrow> table \<Rightarrow> error + table" where
  "project Outcome_joined merged = project_outcome_joined merged"
| "project Risk_scoring merged = project_risk_scoring merged"
| "project Win_probability merged = project_win_probability merged"

section \<open>Partitioned writer\<close>

text \<open>The functions of \<^verbatim>\<open>posixpath\<close> that lines 170 to 181 call.\<close>

definition rstrip_slash :: "string \<Rightarrow> string" where
  "rstrip_slash p = rev (dropWhile (\<lambda>c. c = CHR ''/'') (rev p))"

text \<open>\<^verbatim>\<open>p.rfind('/') + 1\<close>: the length up to and including the last slash, 0 without one.\<close>

definition after_last_slash :: "string \<Rightarrow> nat" where
  "after_last_slash p = length p - length (takeWhile (\<lambda>c. c \<noteq> CHR ''/'') (rev p))"

definition dirname :: "string \<Rightarrow> string" where
  "dirname p =
     (let hd_part = take (after_last_slash p) p in
      if hd_part \<noteq> [] \<and> hd_part \<noteq> replicate (length hd_part) (CHR ''/'')
      then rstrip_slash hd_part else hd_part)"

definition basename :: "string \<Rightarrow> string" where
  "basename p = drop (after_last_slash p) p"

definition join_step :: "string \<Rightarrow> string \<Rightarrow> string" where
  "join_step b path =
     (if take 1 b = ''/'' then b
      else if path = [] \<or> endswith path ''/'' then path @ b
      else path @ ''/'' @ b)"

definition path_join :: "string \<Rightarrow> string list \<Rightarrow> string" where
  "path_join a ps = fold join_step ps a"

text \<open>What the run sees of the file system: which paths are directories, for which
  directories \<^verbatim>\<open>os.makedirs(d, exist_ok=True)\<close> returns, and which files can be
  written.\<close>

record filesystem =
  isdir :: "string \<Rightarrow> bool"
  makedirs_ok :: "string \<Rightarrow> bool"
  writable :: "string \<Rightarrow> bool"

definition resolve_path :: "filesystem \<Rightarrow> string option \<Rightarrow> string \<Rightarrow> string" where
  "resolve_path fs partition_date p =
     (case partition_date of
        None \<Rightarrow> p
      | Some d \<Rightarrow>
          if d \<noteq> [] \<and> isdir fs (if dirname p = [] then ''.'' else dirname p) then
            (let base = rstrip_slash p in
             if \<not> endswith base ''.parquet''
             then path_join base [''date='' @ d, ''data.parquet'']
             else path_join (dirname base) [''date='' @ d, basename base])
          else p)"

record written =
  path :: string
  frame :: table

text \<open>Lines 179 to 182: the directory of the path, when the path has one, is created;
  \<^verbatim>\<open>to_parquet\<close> then converts the frame to an Arrow table, which raises on a column
  that holds strings and numbers together (what \<^verbatim>\<open>fillna(0)\<close> makes of a column of
  strings with nulls), and writes the file. Each failure is an uncaught exception.\<close>

definition mixed_column :: "table \<Rightarrow> string \<Rightarrow> bool" where
  "mixed_column t c =
     (list_ex (\<lambda>r. is_str (cell_at r c)) (rows t) \<and> list_ex (\<lambda>r. is_num (cell_at r c)) (rows t))"

definition write_parquet :: "filesystem \<Rightarrow> string \<Rightarrow> table \<Rightarrow> error + written" where
  "write_parquet fs p out_df =
     (if dirname p \<noteq> [] \<and> \<not> makedirs_ok fs (dirname p) then Inl WriteError
      else if list_ex (mixed_column out_df) (columns out_df) then Inl ArrowError
      else if writable fs p then Inr \<lparr>path = p, frame = out_df\<rparr>
      else Inl WriteError)"

section \<open>The pipeline\<close>

record args =
  output_path :: string
  model :: model_id
  tenant_id :: "string option"
  partition_date :: "string option"

text \<open>\<^verbatim>\<open>main\<close>: the two frames read (\<open>None\<close> when reading raised), the joiner, the
  targets, the tenant filter, the projection of the mode, the write.\<close>

definition main :: "filesystem \<Rightarrow> args \<Rightarrow> table option \<Rightarrow> table option \<Rightarrow> error + written" where
  "main fs a rev_in out_in =
     (case (rev_in, out_in) of
        (Some evals, Some out) \<Rightarrow>
          (case joiner evals out of
             Inl e \<Rightarrow> Inl e
           | Inr merged \<Rightarrow>
               (case derive_targets merged of
                  Inl e \<Rightarrow> Inl e
                | Inr m \<Rightarrow>
                    (case project (model a) (tenant_filter (tenant_id a) m) of
                       Inl e \<Rightarrow> Inl e
                     | Inr out_df \<Rightarrow>
                         write_parquet fs (resolve_path fs (partition_date a) (output_path a)) out_df)))
      | _ \<Rightarrow> Inl ReadError)"

text \<open>The exit status: the value \<^verbatim>\<open>main\<close> returns, and 1 for an uncaught exception.\<close>

definition exit_code :: "error + written \<Rightarrow> int" where
  "exit_code r = (case r of Inl _ \<Rightarrow> 1 | Inr _ \<Rightarrow> 0)"

definition rows_written :: "error + written \<Rightarrow> nat" where
  "rows_written r = (case r of Inl _ \<Rightarrow> 0 | Inr w \<Rightarrow> length (rows (frame w)))"

section \<open>Row-wise descriptions of the stages\<close>

text \<open>Closed forms of what each stage does to one row; the lemmas below prove that the stages
  compute them.\<close>

text \<open>The frame the loop of lines 108 to 110 leaves when it does not raise, and the frame
  the joiner returns when neither the merge nor the loop raises.\<close>

definition without_column :: "string \<Rightarrow> table \<Rightarrow> table" where
  "without_column c t =
     \<lparr>columns = filter (\<lambda>x. x \<noteq> c) (columns t),
      rows = map (\<lambda>r. r(c := None)) (rows t)\<rparr>"

definition without_out_columns :: "table \<Rightarrow> table" where
  "without_out_columns t =
     fold (\<lambda>c m. if endswith c ''_out'' then without_column c m else m) (columns t) t"

definition join_tables :: "table \<Rightarrow> table \<Rightarrow> table" where
  "join_tables evals out = without_out_columns (merged_frame join_keys evals (drop_duplicates join_keys out))"

text \<open>The outcome cell a left row receives from the right rows: that of the first right row
  with its key, null when there is none.\<close>

definition matched :: "string list \<Rightarrow> row list \<Rightarrow> row \<Rightarrow> string \<Rightarrow> cell" where
  "matched ks rs l = (case find (\<lambda>r. key_of ks r = key_of ks l) rs of None \<Rightarrow> (\<lambda>_. Null) | Some r \<Rightarrow> cell_at r)"

text \<open>The row that lines 113 to 127 make of a merged row.\<close>

definition derived_row :: "table \<Rightarrow> row \<Rightarrow> row" where
  "derived_row M r =
     r(''target_win'' \<mapsto> target_win_of (column_get M ''outcome'' r),
       ''target_risk'' \<mapsto>
          (if notna (clip01 (column_get M ''riskScore'' r))
           then clip01 (column_get M ''riskScore'' r)
           else outcome_risk (column_get M ''outcome'' r)),
       ''is_closed'' \<mapsto> (if notna (column_get M ''outcome'' r) then Num 1 else Num 0))"

text \<open>A row after the loop over \<^verbatim>\<open>_PLACEHOLDER\<close>, and the rows the two training modes
  write.\<close>

definition placeholder_row :: "row \<Rightarrow> row" where
  "placeholder_row r =
     r(''probability'' \<mapsto> Num 0.5, ''days_to_close'' \<mapsto> Num 0, ''stage_encoded'' \<mapsto> Num 0,
       ''industry_encoded'' \<mapsto> Num 0, ''days_since_last_activity'' \<mapsto> Num 999,
       ''activity_count_30d'' \<mapsto> Num 0, ''stakeholder_count'' \<mapsto> Num 0)"

definition risk_scoring_row :: "table \<Rightarrow> row \<Rightarrow> row" where
  "risk_scoring_row t r =
     (placeholder_row r)
       (''amount'' \<mapsto> (if ''amount'' \<in> set (columns t) then fillna (Num 0) (cell_at r ''amount'') else Num 0),
        ''risk_score_latest'' \<mapsto>
           (if ''riskScore'' \<in> set (columns t) then fillna (Num 0.5) (cell_at r ''riskScore'') else Num 0.5))
     |` set ([''tenantId'', ''opportunityId''] @ req_risk @ [''risk_score_latest''])"

definition win_probability_row :: "table \<Rightarrow> row \<Rightarrow> row" where
  "win_probability_row t r =
     (placeholder_row r)
       (''amount'' \<mapsto> (if ''amount'' \<in> set (columns t) then fillna (Num 0) (cell_at r ''amount'') else Num 0))
     |` set ([''tenantId'', ''opportunityId''] @ req_win)"

text \<open>The row filter of \<^verbatim>\<open>win_probability\<close> mode.\<close>

definition closed_with_target :: "row \<Rightarrow> bool" where
  "closed_with_target r = (cell_at r ''is_closed'' = Num 1 \<and> cell_at r ''target_win'' \<noteq> Null)"

text \<open>The keep-list after \<^verbatim>\<open>evaluationId\<close> was inserted behind \<^verbatim>\<open>timestamp\<close>, a row
  after the loop that creates the missing columns, and the columns a run has written.\<close>

definition keep_with_evaluation_id :: "string list" where
  "keep_with_evaluation_id =
     [''tenantId'', ''opportunityId'', ''riskScore'', ''categoryScores'', ''timestamp'',
      ''evaluationId'', ''outcome'', ''amount'', ''closeDate'', ''recordedAt'', ''target_risk'',
      ''target_win'', ''is_closed'']"

definition null_filled_row :: "string list \<Rightarrow> table \<Rightarrow> row \<Rightarrow> row" where
  "null_filled_row cs t r =
     (\<lambda>x. if x \<in> set cs \<and> x \<noteq> ''evaluationId'' \<and> x \<notin> set (columns t) then Some Null else r x)"

definition written_columns :: "error + written \<Rightarrow> string list" where
  "written_columns r = (case r of Inl _ \<Rightarrow> [] | Inr w \<Rightarrow> columns (frame w))"

section \<open>Scenarios\<close>

text \<open>The inputs of the scenarios A to D of the specification, and small frames on which the
  properties are instantiated. Scenario A: three evaluation rows, two of opportunity 1;
  the outcome of opportunity 1 is won, followed by a duplicate that is lost. Scenario B: no
  risk score and no outcome in any row. Scenario C: seven evaluation rows, five of them with an
  outcome.\<close>

definition scenario_A_evals :: table where
  "scenario_A_evals =
     \<lparr>columns = [''tenantId'', ''opportunityId'', ''riskScore''],
      rows = [[''tenantId'' \<mapsto> Str ''t1'', ''opportunityId'' \<mapsto> Num 1, ''riskScore'' \<mapsto> Null],
              [''tenantId'' \<mapsto> Str ''t1'', ''opportunityId'' \<mapsto> Num 1, ''riskScore'' \<mapsto> Num 0.3],
              [''tenantId'' \<mapsto> Str ''t1'', ''opportunityId'' \<mapsto> Num 2, ''riskScore'' \<mapsto> Null]]\<rparr>"

definition scenario_A_outcomes :: table where
  "scenario_A_outcomes =
     \<lparr>columns = [''opportunityId'', ''outcome''],
      rows = [[''opportunityId'' \<mapsto> Num 1, ''outcome'' \<mapsto> Str ''won''],
              [''opportunityId'' \<mapsto> Num 1, ''outcome'' \<mapsto> Str ''lost'']]\<rparr>"


text \<open>Frames on which the merge or the writer raises: an outcome frame whose
  \<^verbatim>\<open>amount\<close> is a column of strings with a null, an evaluation frame whose first tenant
  is null, and frames in which the suffix \<^verbatim>\<open>_out\<close> meets a label that is there
  already.\<close>

definition string_amount_evals :: table where
  "string_amount_evals =
     \<lparr>columns = [''tenantId'', ''opportunityId'', ''riskScore''],
      rows = [[''tenantId'' \<mapsto> Str ''t1'', ''opportunityId'' \<mapsto> Num 1, ''riskScore'' \<mapsto> Num 0.3],
              [''tenantId'' \<mapsto> Str ''t1'', ''opportunityId'' \<mapsto> Num 2, ''riskScore'' \<mapsto> Num 0.6]]\<rparr>"

definition string_amount_outcomes :: table where
  "string_amount_outcomes =
     \<lparr>columns = [''tenantId'', ''opportunityId'', ''outcome'', ''amount''],
      rows = [[''tenantId'' \<mapsto> Str ''t1'', ''opportunityId'' \<mapsto> Num 1, ''outcome'' \<mapsto> Str ''won'',
               ''amount'' \<mapsto> Str ''100''],
              [''tenantId'' \<mapsto> Str ''t1'', ''opportunityId'' \<mapsto> Num 2, ''outcome'' \<mapsto> Str ''lost'',
               ''amount'' \<mapsto> Null]]\<rparr>"

definition null_tenant_evals :: table where
  "null_tenant_evals =
     \<lparr>columns = [''tenantId'', ''opportunityId'', ''riskScore''],
      rows = [[''tenantId'' \<mapsto> Null, ''opportunityId'' \<mapsto> Num 1, ''riskScore'' \<mapsto> Num 0.3],
              [''tenantId'' \<mapsto> Str ''t1'', ''opportunityId'' \<mapsto> Num 2, ''riskScore'' \<mapsto> Num 0.6]]\<rparr>"

definition suffixed_evals :: table where
  "suffixed_evals =
     \<lparr>columns = [''tenantId'', ''opportunityId'', ''amount'', ''amount_out''],
      rows = [[''tenantId'' \<mapsto> Str ''t1'', ''opportunityId'' \<mapsto> Num 1, ''amount'' \<mapsto> Num 5,
               ''amount_out'' \<mapsto> Num 6]]\<rparr>"

definition amount_evals :: table where
  "amount_evals =
     \<lparr>columns = [''tenantId'', ''opportunityId'', ''amount''],
      rows = [[''tenantId'' \<mapsto> Str ''t1'', ''opportunityId'' \<mapsto> Num 1, ''amount'' \<mapsto> Num 5]]\<rparr>"

definition suffixed_outcomes :: table where
  "suffixed_outcomes =
     \<lparr>columns = [''tenantId'', ''opportunityId'', ''amount'', ''amount_out''],
      rows = [[''tenantId'' \<mapsto> Str ''t1'', ''opportunityId'' \<mapsto> Num 1, ''amount'' \<mapsto> Num 7,
               ''amount_out'' \<mapsto> Num 8]]\<rparr>"

definition merged_example :: table where
  "merged_example =
     \<lparr>columns = [''tenantId'', ''opportunityId'', ''riskScore'', ''outcome''],
      rows = [[''tenantId'' \<mapsto> Str ''t1'', ''opportunityId'' \<mapsto> Num 1, ''riskScore'' \<mapsto> Num 1.5, ''outcome'' \<mapsto> Str ''won''],
              [''tenantId'' \<mapsto> Str ''t1'', ''opportunityId'' \<mapsto> Num 2, ''riskScore'' \<mapsto> Null, ''outcome'' \<mapsto> Str ''lost''],
              [''tenantId'' \<mapsto> Str ''t2'', ''opportunityId'' \<mapsto> Num 3, ''riskScore'' \<mapsto> Null, ''outcome'' \<mapsto> Null],
              [''tenantId'' \<mapsto> Str ''t2'', ''opportunityId'' \<mapsto> Num 4, ''riskScore'' \<mapsto> Num (- 0.2), ''outcome'' \<mapsto> Str ''lost'']]\<rparr>"

definition scenario_A_outcomes_keyed :: table where
  "scenario_A_outcomes_keyed = assign_scalar ''tenantId'' (Str ''t1'') scenario_A_outcomes"

definition no_outcome_evals :: table where
  "no_outcome_evals =
     \<lparr>columns = [''tenantId'', ''opportunityId'', ''riskScore''],
      rows = [[''tenantId'' \<mapsto> Str ''t1'', ''opportunityId'' \<mapsto> Num 1, ''riskScore'' \<mapsto> Num 0.3]]\<rparr>"

definition no_outcome_outcomes :: table where
  "no_outcome_outcomes =
     \<lparr>columns = [''tenantId'', ''opportunityId'', ''amount''],
      rows = [[''tenantId'' \<mapsto> Str ''t1'', ''opportunityId'' \<mapsto> Num 1, ''amount'' \<mapsto> Num 100]]\<rparr>"

definition local_fs :: filesystem where
  "local_fs =
     \<lparr>isdir = (\<lambda>p. p = ''out'' \<or> p = ''.''), makedirs_ok = (\<lambda>_. True), writable = (\<lambda>_. True)\<rparr>"

definition plain_args :: "model_id \<Rightarrow> args" where
  "plain_args m = \<lparr>output_path = ''out/data.parquet'', model = m, tenant_id = None, partition_date = None\<rparr>"

definition scenario_B_evals :: table where
  "scenario_B_evals =
     \<lparr>columns = [''tenantId'', ''opportunityId'', ''riskScore''],
      rows = [[''tenantId'' \<mapsto> Str ''t1'', ''opportunityId'' \<mapsto> Num 1, ''riskScore'' \<mapsto> Null],
              [''tenantId'' \<mapsto> Str ''t1'', ''opportunityId'' \<mapsto> Num 2, ''riskScore'' \<mapsto> Null]]\<rparr>"

definition scenario_B_outcomes :: table where
  "scenario_B_outcomes =
     \<lparr>columns = [''tenantId'', ''opportunityId'', ''outcome''],
      rows = [[''tenantId'' \<mapsto> Str ''t1'', ''opportunityId'' \<mapsto> Num 1, ''outcome'' \<mapsto> Null],
              [''tenantId'' \<mapsto> Str ''t1'', ''opportunityId'' \<mapsto> Num 7, ''outcome'' \<mapsto> Str ''won'']]\<rparr>"

definition scenario_C_evals :: table where
  "scenario_C_evals =
     \<lparr>columns = [''tenantId'', ''opportunityId''],
      rows = [[''tenantId'' \<mapsto> Str ''t1'', ''opportunityId'' \<mapsto> Num 1],
              [''tenantId'' \<mapsto> Str ''t1'', ''opportunityId'' \<mapsto> Num 2],
              [''tenantId'' \<mapsto> Str ''t1'', ''opportunityId'' \<mapsto> Num 3],
              [''tenantId'' \<mapsto> Str ''t1'', ''opportunityId'' \<mapsto> Num 4],
              [''tenantId'' \<mapsto> Str ''t1'', ''opportunityId'' \<mapsto> Num 5],
              [''tenantId'' \<mapsto> Str ''t1'', ''opportunityId'' \<mapsto> Num 6],
              [''tenantId'' \<mapsto> Str ''t1'', ''opportunityId'' \<mapsto> Num 7]]\<rparr>"

definition scenario_C_outcomes :: table where
  "scenario_C_outcomes =
     \<lparr>columns = [''tenantId'', ''opportunityId'', ''outcome''],
      rows = [[''tenantId'' \<mapsto> Str ''t1'', ''opportunityId'' \<mapsto> Num 1, ''outcome'' \<mapsto> Str ''won''],
              [''tenantId'' \<mapsto> Str ''t1'', ''opportunityId'' \<mapsto> Num 2, ''outcome'' \<mapsto> Str ''lost''],
              [''tenantId'' \<mapsto> Str ''t1'', ''opportunityId'' \<mapsto> Num 3, ''outcome'' \<mapsto> Str ''won''],
              [''tenantId'' \<mapsto> Str ''t1'', ''opportunityId'' \<mapsto> Num 4, ''outcome'' \<mapsto> Str ''lost''],
              [''tenantId'' \<mapsto> Str ''t1'', ''opportunityId'' \<mapsto> Num 5, ''outcome'' \<mapsto> Str ''won'']]\<rparr>"

definition closed_example :: table where
  "closed_example =
     \<lparr>columns = [''tenantId'', ''opportunityId'', ''probability'', ''target_risk'', ''target_win'', ''is_closed''],
      rows = [[''tenantId'' \<mapsto> Str ''t1'', ''opportunityId'' \<mapsto> Num 1, ''probability'' \<mapsto> Num 0.9,
               ''target_risk'' \<mapsto> Num 0, ''target_win'' \<mapsto> Num 1, ''is_closed'' \<mapsto> Num 1],
              [''tenantId'' \<mapsto> Str ''t1'', ''opportunityId'' \<mapsto> Num 2, ''probability'' \<mapsto> Num 0.2,
               ''target_risk'' \<mapsto> Null, ''target_win'' \<mapsto> Null, ''is_closed'' \<mapsto> Num 0]]\<rparr>"

definition scenario_A_evals_with_id :: table where
  "scenario_A_evals_with_id =
     \<lparr>columns = [''tenantId'', ''opportunityId'', ''riskScore'', ''evaluationId''],
      rows = [[''tenantId'' \<mapsto> Str ''t1'', ''opportunityId'' \<mapsto> Num 1, ''riskScore'' \<mapsto> Null,
               ''evaluationId'' \<mapsto> Str ''e1''],
              [''tenantId'' \<mapsto> Str ''t1'', ''opportunityId'' \<mapsto> Num 1, ''riskScore'' \<mapsto> Num 0.3,
               ''evaluationId'' \<mapsto> Str ''e2''],
              [''tenantId'' \<mapsto> Str ''t1'', ''opportunityId'' \<mapsto> Num 2, ''riskScore'' \<mapsto> Null,
               ''evaluationId'' \<mapsto> Str ''e3'']]\<rparr>"

definition other_tenant_args :: args where
  "other_tenant_args =
     \<lparr>output_path = ''out/data.parquet'', model = Outcome_joined, tenant_id = Some ''t9'',
      partition_date = None\<rparr>"

section \<open>Properties of the joiner\<close>

lemma dedup_first_unseen:
  "x \<in> set (dedup_first ks seen rs) \<Longrightarrow> key_of ks x \<notin> set seen"
proof (induction rs arbitrary: seen)
  case Nil
  then show ?case by simp
next
  case (Cons r rs)
  show ?case
  proof (cases "key_of ks r \<in> set seen")
    case True
    with Cons.prems have "x \<in> set (dedup_first ks seen rs)" by simp
    then show ?thesis by (rule Cons.IH)
  next
    case False
    with Cons.prems have "x = r \<or> x \<in> set (dedup_first ks (key_of ks r # seen) rs)" by simp
    then show ?thesis
    proof
      assume "x = r"
      with False show ?thesis by simp
    next
      assume "x \<in> set (dedup_first ks (key_of ks r # seen) rs)"
      then have "key_of ks x \<notin> set (key_of ks r # seen)" by (rule Cons.IH)
      then show ?thesis by simp
    qed
  qed
qed

lemma dedup_first_distinct: "distinct (map (key_of ks) (dedup_first ks seen rs))"
proof (induction rs arbitrary: seen)
  case Nil
  then show ?case by simp
next
  case (Cons r rs)
  have "key_of ks r \<notin> key_of ks ` set (dedup_first ks (key_of ks r # seen) rs)"
  proof
    assume "key_of ks r \<in> key_of ks ` set (dedup_first ks (key_of ks r # seen) rs)"
    then obtain x where x: "x \<in> set (dedup_first ks (key_of ks r # seen) rs)"
      and k: "key_of ks r = key_of ks x" by blast
    from dedup_first_unseen [OF x] k show False by simp
  qed
  with Cons show ?case by simp
qed

lemma dedup_first_find:
  "find (\<lambda>x. key_of ks x = k) (dedup_first ks seen rs) =
     (if k \<in> set seen then None else find (\<lambda>x. key_of ks x = k) rs)"
proof (induction rs arbitrary: seen)
  case Nil
  then show ?case by simp
next
  case (Cons r rs)
  then show ?case by auto
qed

lemma filter_distinct_key:
  "distinct (map f xs) \<Longrightarrow>
   filter (\<lambda>x. f x = k) xs = (case find (\<lambda>x. f x = k) xs of None \<Rightarrow> [] | Some x \<Rightarrow> [x])"
proof (induction xs)
  case Nil
  then show ?case by simp
next
  case (Cons x xs)
  from Cons.prems have "f x \<notin> f ` set xs" by simp
  then have "\<forall>y\<in>set xs. f y \<noteq> f x" by (metis imageI)
  then have "f x = k \<Longrightarrow> filter (\<lambda>y. f y = k) xs = []"
    by (simp add: filter_empty_conv)
  with Cons show ?case by auto
qed

lemma upcast_cell_Null [simp]: "upcast_cell Null = Null"
  by (simp add: upcast_cell_def)

lemma upcast_cell_Str [simp]: "upcast_cell (Str s) = Str s"
  by (simp add: upcast_cell_def)

lemma promote_Null [simp]: "promote ks left right Null = Null"
  by (simp add: promote_def)

lemma promote_Str [simp]: "promote ks left right (Str s) = Str s"
  by (simp add: promote_def)

lemma merged_frame_rows:
  assumes "distinct (map (key_of ks) (rows right))"
  shows "rows (merged_frame ks left right) =
         map (\<lambda>l. merged_row (columns left) (filter (\<lambda>c. c \<notin> set ks) (columns right)) l
                    (\<lambda>c. promote ks left right (matched ks (rows right) l c))) (rows left)"
proof -
  have "\<And>l. (case filter (\<lambda>r. key_of ks r = key_of ks l) (rows right) of
                [] \<Rightarrow> [merged_row (columns left) (filter (\<lambda>c. c \<notin> set ks) (columns right)) l (\<lambda>_. Null)]
              | ms \<Rightarrow> map (\<lambda>r. merged_row (columns left) (filter (\<lambda>c. c \<notin> set ks) (columns right)) l
                               (\<lambda>c. promote ks left right (cell_at r c))) ms)
           = [merged_row (columns left) (filter (\<lambda>c. c \<notin> set ks) (columns right)) l
                (\<lambda>c. promote ks left right (matched ks (rows right) l c))]"
    by (simp add: filter_distinct_key [OF assms] matched_def split: option.splits)
  then show ?thesis
    by (simp add: merged_frame_def Let_def)
qed

lemma fold_drop_rows:
  "rows (fold (\<lambda>c m. if P c then without_column c m else m) cs t) =
     map (\<lambda>r x. if x \<in> set cs \<and> P x then None else r x) (rows t)"
proof (induction cs arbitrary: t)
  case Nil
  then show ?case by simp
next
  case (Cons c cs)
  show ?case
  proof (cases "P c")
    case True
    have "\<And>r::row. (\<lambda>x. if x \<in> set cs \<and> P x then None else (r(c := None)) x)
                    = (\<lambda>x. if x \<in> set (c # cs) \<and> P x then None else r x)"
      using True by (auto simp: fun_eq_iff)
    with True show ?thesis by (simp add: Cons.IH without_column_def comp_def)
  next
    case False
    have "\<And>r::row. (\<lambda>x. if x \<in> set cs \<and> P x then None else r x)
                    = (\<lambda>x. if x \<in> set (c # cs) \<and> P x then None else r x)"
      using False by (auto simp: fun_eq_iff)
    with False show ?thesis by (simp add: Cons.IH)
  qed
qed

lemma fold_drop_columns:
  "columns (fold (\<lambda>c m. if P c then without_column c m else m) cs t) =
     filter (\<lambda>c. \<not> (c \<in> set cs \<and> P c)) (columns t)"
proof (induction cs arbitrary: t)
  case Nil
  then show ?case by simp
next
  case (Cons c cs)
  show ?case
    by (cases "P c") (auto simp: Cons.IH without_column_def intro!: filter_cong)
qed

lemma rows_without_out_columns:
  "rows (without_out_columns t) =
     map (\<lambda>r x. if x \<in> set (columns t) \<and> endswith x ''_out'' then None else r x) (rows t)"
  unfolding without_out_columns_def by (rule fold_drop_rows)

lemma columns_without_out_columns:
  "columns (without_out_columns t) = filter (\<lambda>c. \<not> endswith c ''_out'') (columns t)"
  unfolding without_out_columns_def fold_drop_columns by (rule filter_cong) auto

lemma length_join_tables: "length (rows (join_tables E O')) = length (rows E)"
  by (simp add: join_tables_def rows_without_out_columns merged_frame_rows drop_duplicates_def dedup_first_distinct)

lemma endswith_append [simp]: "endswith (c @ suf) suf"
  by (simp add: endswith_def)

lemma map_of_graph: "map_of (map (\<lambda>k. (k, f k)) ks) c = (if c \<in> set ks then Some (f c) else None)"
  by (induction ks) auto

lemma merged_row_left:
  "c \<in> set lcols \<Longrightarrow> merged_row lcols rcols l rv c = Some (cell_at l c)"
  by (simp add: merged_row_def map_of_append map_of_graph map_add_def)

lemma map_of_right_labels:
  "c \<in> set rcols \<Longrightarrow> c \<notin> set lcols \<Longrightarrow> \<not> endswith c ''_out'' \<Longrightarrow>
   map_of (map (\<lambda>c. (right_label lcols c, rv c)) rcols) c = Some (rv c)"
proof (induction rcols)
  case Nil
  then show ?case by simp
next
  case (Cons a rcols)
  show ?case
  proof (cases "right_label lcols a = c")
    case True
    have "a = c"
    proof (cases "a \<in> set lcols")
      case True
      with \<open>right_label lcols a = c\<close> have "c = a @ ''_out''" by (simp add: right_label_def)
      with Cons.prems(3) show ?thesis by simp
    next
      case False
      with \<open>right_label lcols a = c\<close> show ?thesis by (simp add: right_label_def)
    qed
    with True show ?thesis by simp
  next
    case False
    then have "a \<noteq> c" using Cons.prems(2) by (auto simp: right_label_def)
    with False Cons show ?thesis by simp
  qed
qed

lemma merged_row_right:
  "c \<in> set rcols \<Longrightarrow> c \<notin> set lcols \<Longrightarrow> \<not> endswith c ''_out'' \<Longrightarrow>
   merged_row lcols rcols l rv c = Some (rv c)"
  by (simp add: merged_row_def map_of_append map_of_graph map_add_def map_of_right_labels)

lemma columns_merged_frame:
  "columns (merged_frame ks l r) =
     columns l @ map (right_label (columns l)) (filter (\<lambda>c. c \<notin> set ks) (columns r))"
  by (simp add: merged_frame_def Let_def)

lemma columns_join_tables:
  "columns (join_tables E O') =
     filter (\<lambda>c. \<not> endswith c ''_out'')
       (columns E @ map (right_label (columns E)) (filter (\<lambda>c. c \<notin> set join_keys) (columns O')))"
  by (simp add: join_tables_def columns_without_out_columns columns_merged_frame drop_duplicates_def)

lemma matched_dedup:
  "matched ks (dedup_first ks [] rs) l = matched ks rs l"
  by (simp add: matched_def dedup_first_find)

lemma unmatched_find: "unmatched ks rs l = (find (\<lambda>r. key_of ks r = key_of ks l) rs = None)"
  by (auto simp: unmatched_def filter_empty_conv find_None_iff)

lemma unmatched_dedup: "unmatched ks (dedup_first ks [] rs) l = unmatched ks rs l"
  by (simp add: unmatched_find dedup_first_find)

lemma unmatched_dedup_fun: "unmatched ks (dedup_first ks [] rs) = unmatched ks rs"
  by (rule ext) (rule unmatched_dedup)

lemma promote_dedup: "promote ks left (drop_duplicates ks right) v = promote ks left right v"
  by (simp add: promote_def drop_duplicates_def unmatched_dedup_fun)

lemma join_tables_row:
  assumes "i < length (rows E)"
  shows "rows (join_tables E O') ! i =
         (\<lambda>x. if x \<in> set (columns (merged_frame join_keys E (drop_duplicates join_keys O'))) \<and> endswith x ''_out''
              then None
              else merged_row (columns E) (filter (\<lambda>c. c \<notin> set join_keys) (columns O')) (rows E ! i)
                     (\<lambda>c. promote join_keys E O' (matched join_keys (rows O') (rows E ! i) c)) x)"
  using assms
  by (simp add: join_tables_def rows_without_out_columns merged_frame_rows dedup_first_distinct
        promote_dedup drop_duplicates_def [of join_keys O', THEN arg_cong, of rows] matched_dedup
        drop_duplicates_def [of join_keys O', THEN arg_cong, of columns])

lemma join_tables_left_cell:
  assumes "i < length (rows E)" "c \<in> set (columns E)" "\<not> endswith c ''_out''"
  shows "(rows (join_tables E O') ! i) c = Some (cell_at (rows E ! i) c)"
  using assms by (simp add: join_tables_row merged_row_left)

lemma join_tables_right_cell:
  assumes "i < length (rows E)" "c \<in> set (columns O')" "c \<notin> set (columns E)" "c \<notin> set join_keys"
    "\<not> endswith c ''_out''"
  shows "(rows (join_tables E O') ! i) c
           = Some (promote join_keys E O' (matched join_keys (rows O') (rows E ! i) c))"
  using assms by (simp add: join_tables_row merged_row_right)

lemma normalize_keys_ok:
  assumes "\<not> df_empty E" "''tenantId'' \<in> set (columns E)" "''opportunityId'' \<in> set (columns E)"
    "''opportunityId'' \<in> set (columns Oc)"
  shows "normalize_keys E Oc =
         Inr (if ''tenantId'' \<in> set (columns Oc) then Oc
              else assign_scalar ''tenantId'' (cell_at (hd (rows E)) ''tenantId'') Oc)"
  using assms
  by (cases "rows E") (simp_all add: normalize_keys_def first_missing_def df_empty_def)

subsection \<open>The loop that drops the suffixed columns\<close>

lemma drop_loop_InrD:
  "drop_loop cs m = Inr M \<Longrightarrow>
   M = fold (\<lambda>c m. if endswith c ''_out'' then without_column c m else m) cs m"
proof (induction cs arbitrary: m)
  case Nil
  then show ?case by simp
next
  case (Cons c cs)
  show ?case
  proof (cases "endswith c ''_out''")
    case True
    with Cons.prems obtain m' where d: "drop_column c m = Inr m'" and l: "drop_loop cs m' = Inr M"
      by (auto split: sum.splits)
    from d have "m' = without_column c m"
      by (auto simp: drop_column_def without_column_def split: if_splits)
    with Cons.IH [OF l] True show ?thesis by simp
  next
    case False
    with Cons.prems have "drop_loop cs m = Inr M" by simp
    from Cons.IH [OF this] False show ?thesis by simp
  qed
qed

lemma drop_out_suffixed_InrD: "drop_out_suffixed m = Inr M \<Longrightarrow> M = without_out_columns m"
  unfolding drop_out_suffixed_def without_out_columns_def by (rule drop_loop_InrD)

lemma drop_loop_ok:
  "distinct cs \<Longrightarrow> set cs \<subseteq> set (columns m) \<Longrightarrow>
   drop_loop cs m = Inr (fold (\<lambda>c m. if endswith c ''_out'' then without_column c m else m) cs m)"
proof (induction cs arbitrary: m)
  case Nil
  then show ?case by simp
next
  case (Cons c cs)
  from Cons.prems have c: "c \<in> set (columns m)" and d: "distinct cs" and n: "c \<notin> set cs"
    and sub: "set cs \<subseteq> set (columns m)" by auto
  show ?case
  proof (cases "endswith c ''_out''")
    case True
    from c have dc: "drop_column c m = Inr (without_column c m)"
      by (simp add: drop_column_def without_column_def)
    from sub n have "set cs \<subseteq> set (columns (without_column c m))"
      by (auto simp: without_column_def)
    from Cons.IH [OF d this] True dc show ?thesis by simp
  next
    case False
    from Cons.IH [OF d sub] False show ?thesis by simp
  qed
qed

lemma drop_out_suffixed_ok:
  "distinct (columns m) \<Longrightarrow> drop_out_suffixed m = Inr (without_out_columns m)"
  unfolding drop_out_suffixed_def without_out_columns_def by (rule drop_loop_ok) simp_all

subsection \<open>When the merge raises\<close>

lemma dedup_first_subset: "set (dedup_first ks seen rs) \<subseteq> set rs"
  by (induction rs arbitrary: seen) auto

lemma string_column_dedup:
  assumes "k \<in> set ks"
  shows "string_column (drop_duplicates ks t) k = string_column t k"
proof
  assume "string_column (drop_duplicates ks t) k"
  then show "string_column t k"
    using dedup_first_subset [of ks "[]" "rows t"]
    by (auto simp: string_column_def drop_duplicates_def list_ex_iff)
next
  assume "string_column t k"
  then obtain r where r: "r \<in> set (rows t)" and s: "is_str (cell_at r k)"
    by (auto simp: string_column_def list_ex_iff)
  from r have "find (\<lambda>x. key_of ks x = key_of ks r) (rows t) \<noteq> None"
    by (auto simp: find_None_iff)
  then obtain r' where f: "find (\<lambda>x. key_of ks x = key_of ks r) (dedup_first ks [] (rows t)) = Some r'"
    by (auto simp: dedup_first_find)
  then have in': "r' \<in> set (dedup_first ks [] (rows t))" and k: "key_of ks r' = key_of ks r"
    by (auto simp: find_Some_iff in_set_conv_nth)
  from k assms have "cell_at r' k = cell_at r k"
    by (auto simp: key_of_def)
  with s have "is_str (cell_at r' k)" by simp
  with in' show "string_column (drop_duplicates ks t) k"
    unfolding string_column_def drop_duplicates_def list_ex_iff by auto
qed

lemma rows_dedup_empty: "(rows (drop_duplicates ks t) = []) = (rows t = [])"
  by (cases "rows t") (simp_all add: drop_duplicates_def)

lemma incompatible_keys_dedup:
  "incompatible_keys ks left (drop_duplicates ks right) = incompatible_keys ks left right"
proof -
  have "list_ex (\<lambda>k. string_column left k \<noteq> string_column (drop_duplicates ks right) k) ks
      = list_ex (\<lambda>k. string_column left k \<noteq> string_column right k) ks"
    by (auto simp: list_ex_iff string_column_dedup)
  then show ?thesis
    by (simp add: incompatible_keys_def rows_dedup_empty)
qed

lemma joiner_InrD:
  assumes "joiner E Oc = Inr M"
  shows "\<exists>O'. normalize_keys E Oc = Inr O' \<and> M = join_tables E O'
            \<and> \<not> incompatible_keys join_keys E O'"
proof -
  from assms obtain O' m where n: "normalize_keys E Oc = Inr O'"
    and m: "merge_left join_keys E (drop_duplicates join_keys O') = Inr m"
    and d: "drop_out_suffixed m = Inr M"
    by (auto simp: joiner_def split: sum.splits)
  from m have mf: "m = merged_frame join_keys E (drop_duplicates join_keys O')"
    and ok: "\<not> incompatible_keys join_keys E (drop_duplicates join_keys O')"
    by (auto simp: merge_left_def split: if_splits)
  from drop_out_suffixed_InrD [OF d] mf have "M = join_tables E O'"
    by (simp add: join_tables_def)
  with n ok show ?thesis
    by (auto simp: incompatible_keys_dedup)
qed

lemma joiner_ok:
  assumes "normalize_keys E Oc = Inr O'"
    and "\<not> incompatible_keys join_keys E O'"
    and "distinct (columns E @ map (right_label (columns E)) (filter (\<lambda>c. c \<notin> set join_keys) (columns O')))"
  shows "joiner E Oc = Inr (join_tables E O')"
proof -
  let ?D = "drop_duplicates join_keys O'"
  have cD: "columns ?D = columns O'" by (simp add: drop_duplicates_def)
  from assms(3) have "distinct (map (right_label (columns E)) (filter (\<lambda>c. c \<notin> set join_keys) (columns O')))"
    by simp
  with assms(2) have m: "merge_left join_keys E ?D = Inr (merged_frame join_keys E ?D)"
    by (simp add: merge_left_def incompatible_keys_dedup cD)
  from assms(3) have "distinct (columns (merged_frame join_keys E ?D))"
    by (simp add: columns_merged_frame cD)
  then have "drop_out_suffixed (merged_frame join_keys E ?D) = Inr (join_tables E O')"
    unfolding join_tables_def by (rule drop_out_suffixed_ok)
  with m assms(1) show ?thesis
    by (simp add: joiner_def)
qed

lemma joiner_incompatible:
  assumes "normalize_keys E Oc = Inr O'" and "incompatible_keys join_keys E O'"
  shows "joiner E Oc = Inl ValueError"
  using assms by (simp add: joiner_def merge_left_def incompatible_keys_dedup)

text \<open>The back-fill of line 97 takes the tenant of the first evaluation row; when that is
  null, the outcome frame gets a numeric column of nulls, and the merge raises against the
  strings of the evaluation frame.\<close>

lemma joiner_null_tenant_backfill:
  "joiner null_tenant_evals scenario_A_outcomes = Inl ValueError"
proof -
  have n: "normalize_keys null_tenant_evals scenario_A_outcomes
             = Inr (assign_scalar ''tenantId'' Null scenario_A_outcomes)"
    by (simp add: normalize_keys_def df_empty_def first_missing_def null_tenant_evals_def
          scenario_A_outcomes_def cell_at_def)
  have "incompatible_keys join_keys null_tenant_evals
          (assign_scalar ''tenantId'' Null scenario_A_outcomes)"
    by (simp add: incompatible_keys_def string_column_def join_keys_def null_tenant_evals_def
          scenario_A_outcomes_def assign_scalar_def assign_rowwise_def cell_at_def is_str_def)
  with n show ?thesis by (rule joiner_incompatible)
qed

text \<open>The suffix of the merge: a left label that equals a suffixed right label stands twice
  in the merged frame, and the loop raises KeyError at its second occurrence; two right labels
  that the suffix makes equal make the merge raise.\<close>

lemma joiner_left_suffix_collision:
  "joiner suffixed_evals no_outcome_outcomes = Inl (KeyError ''amount_out'')"
  by (simp add: joiner_def normalize_keys_def df_empty_def first_missing_def suffixed_evals_def
        no_outcome_outcomes_def merge_left_def incompatible_keys_def string_column_def
        drop_duplicates_def join_keys_def key_of_def cell_at_def is_str_def right_label_def
        merged_frame_def Let_def drop_out_suffixed_def drop_column_def endswith_def)

lemma joiner_right_suffix_collision:
  "joiner amount_evals suffixed_outcomes = Inl MergeError"
  by (simp add: joiner_def normalize_keys_def df_empty_def first_missing_def amount_evals_def
        suffixed_outcomes_def merge_left_def incompatible_keys_def string_column_def
        drop_duplicates_def join_keys_def key_of_def cell_at_def is_str_def right_label_def)

text \<open>The cast to float64: an integer below \<open>2 ^ 53\<close> in absolute value is exact, and
  \<open>2 ^ 53 + 1\<close> becomes \<open>2 ^ 53\<close>.\<close>

lemma float64_of_int_exact:
  assumes "\<bar>n\<bar> < 2 ^ 53"
  shows "float64_of_int n = n"
proof -
  from assms have "bitlen \<bar>n\<bar> \<le> 53"
    by (simp add: bitlen_le_iff_power)
  then show ?thesis
    by (simp add: float64_of_int_def Let_def)
qed

lemma float64_of_int_rounds:
  "float64_of_int 9007199254740993 = 9007199254740992"
proof -
  have "bitlen (2 ^ 53 + 1) = 54"
    using bitlen_twopow_add_eq [of 1 53] by simp
  then have b: "bitlen \<bar>9007199254740993\<bar> = 54" by simp
  show ?thesis
    unfolding float64_of_int_def Let_def b by simp
qed

lemma promote_exact:
  assumes "\<bar>n\<bar> < 2 ^ 53"
  shows "promote ks left right (Num (of_int n)) = Num (of_int n)"
  using assms by (simp add: promote_def upcast_cell_def float64_of_int_exact)

subsection \<open>The cardinality of the join\<close>




section \<open>Properties of the target deriver\<close>

lemma derive_targets_ok:
  assumes "''outcome'' \<in> set (columns M) \<or> rows M = []"
    and "\<forall>r\<in>set (rows M). \<not> is_str (column_get M ''riskScore'' r)"
  shows "derive_targets M =
     Inr \<lparr>columns = columns (assign_rowwise ''is_closed'' (\<lambda>_. Null)
                        (assign_rowwise ''target_risk'' (\<lambda>_. Null)
                           (assign_rowwise ''target_win'' (\<lambda>_. Null) M))),
          rows = map (\<lambda>r. r(''target_win'' \<mapsto> target_win_of (column_get M ''outcome'' r),
                            ''target_risk'' \<mapsto>
                               (if notna (clip01 (column_get M ''riskScore'' r))
                                then clip01 (column_get M ''riskScore'' r)
                                else outcome_risk (column_get M ''outcome'' r)),
                            ''is_closed'' \<mapsto> (if notna (column_get M ''outcome'' r) then Num 1 else Num 0)))
                 (rows M)\<rparr>"
proof -
  have no_err: "\<not> (''riskScore'' \<in> set (columns M) \<and> list_ex (\<lambda>r. is_str (cell_at r ''riskScore'')) (rows M))"
    using assms(2) by (auto simp: list_ex_iff column_get_def)
  have no_v: "rows M \<noteq> [] \<Longrightarrow> ''outcome'' \<in> set (columns M)"
    using assms(1) by blast
  show ?thesis
    using no_err no_v
    by (auto simp: derive_targets_def Let_def assign_rowwise_def column_get_def cell_at_def comp_def)
qed

text \<open>
  C2. On a merged frame that has an \<^verbatim>\<open>outcome\<close> column (and whose risk scores are
  numbers or null), the target deriver succeeds and computes for every row:
  \<^verbatim>\<open>target_win\<close> is 1 for outcome "won", 0 for "lost", null otherwise;
  \<^verbatim>\<open>target_risk\<close> is the risk score clamped to [0,1] whenever the score is not null,
  whatever the outcome, and otherwise 1 for "lost", 0 for "won", null for anything else;
  \<^verbatim>\<open>is_closed\<close> is 1 exactly when the outcome is not null, else 0.
\<close>

theorem derive_targets_rules:
  assumes "''outcome'' \<in> set (columns M)"
    and "\<forall>r\<in>set (rows M). \<not> is_str (column_get M ''riskScore'' r)"
  shows "\<exists>M'. derive_targets M = Inr M' \<and> length (rows M') = length (rows M)
           \<and> (\<forall>i<length (rows M).
                 (rows M' ! i) ''target_win'' =
                    Some (if cell_at (rows M ! i) ''outcome'' = Str ''won'' then Num 1
                          else if cell_at (rows M ! i) ''outcome'' = Str ''lost'' then Num 0
                          else Null)
               \<and> (rows M' ! i) ''target_risk'' =
                    Some (case column_get M ''riskScore'' (rows M ! i) of
                            Num x \<Rightarrow> Num (if x < 0 then 0 else if 1 < x then 1 else x)
                          | _ \<Rightarrow> if cell_at (rows M ! i) ''outcome'' = Str ''lost'' then Num 1
                                 else if cell_at (rows M ! i) ''outcome'' = Str ''won'' then Num 0
                                 else Null)
               \<and> (rows M' ! i) ''is_closed'' =
                    Some (if cell_at (rows M ! i) ''outcome'' \<noteq> Null then Num 1 else Num 0))"
proof -
  have risk: "(if notna (clip01 v) then clip01 v else d) =
              (case v of Num x \<Rightarrow> Num (if x < 0 then 0 else if 1 < x then 1 else x) | _ \<Rightarrow> d)"
    if "\<not> is_str v" for v d
    using that by (cases v) (auto simp: notna_def clip01_def is_str_def min_def max_def)
  have oc: "column_get M ''outcome'' r = cell_at r ''outcome''" for r
    using assms(1) by (simp add: column_get_def)
  have "derive_targets M = Inr \<lparr>columns = columns (assign_rowwise ''is_closed'' (\<lambda>_. Null)
                        (assign_rowwise ''target_risk'' (\<lambda>_. Null)
                           (assign_rowwise ''target_win'' (\<lambda>_. Null) M))),
          rows = map (\<lambda>r. r(''target_win'' \<mapsto> target_win_of (column_get M ''outcome'' r),
                            ''target_risk'' \<mapsto>
                               (if notna (clip01 (column_get M ''riskScore'' r))
                                then clip01 (column_get M ''riskScore'' r)
                                else outcome_risk (column_get M ''outcome'' r)),
                            ''is_closed'' \<mapsto> (if notna (column_get M ''outcome'' r) then Num 1 else Num 0)))
                 (rows M)\<rparr>"
    using assms by (intro derive_targets_ok) simp_all
  then obtain M' where d: "derive_targets M = Inr M'"
    and rws: "rows M' = map (\<lambda>r. r(''target_win'' \<mapsto> target_win_of (column_get M ''outcome'' r),
                            ''target_risk'' \<mapsto>
                               (if notna (clip01 (column_get M ''riskScore'' r))
                                then clip01 (column_get M ''riskScore'' r)
                                else outcome_risk (column_get M ''outcome'' r)),
                            ''is_closed'' \<mapsto> (if notna (column_get M ''outcome'' r) then Num 1 else Num 0)))
                 (rows M)"
    by simp
  have row: "(rows M' ! i) ''target_win'' =
                    Some (if cell_at (rows M ! i) ''outcome'' = Str ''won'' then Num 1
                          else if cell_at (rows M ! i) ''outcome'' = Str ''lost'' then Num 0
                          else Null)
               \<and> (rows M' ! i) ''target_risk'' =
                    Some (case column_get M ''riskScore'' (rows M ! i) of
                            Num x \<Rightarrow> Num (if x < 0 then 0 else if 1 < x then 1 else x)
                          | _ \<Rightarrow> if cell_at (rows M ! i) ''outcome'' = Str ''lost'' then Num 1
                                 else if cell_at (rows M ! i) ''outcome'' = Str ''won'' then Num 0
                                 else Null)
               \<and> (rows M' ! i) ''is_closed'' =
                    Some (if cell_at (rows M ! i) ''outcome'' \<noteq> Null then Num 1 else Num 0)"
    if i: "i < length (rows M)" for i
  proof -
    from assms(2) i have ns: "\<not> is_str (column_get M ''riskScore'' (rows M ! i))" by simp
    show ?thesis
      unfolding rws nth_map [OF i] risk [OF ns] oc
      by (simp add: target_win_of_def outcome_risk_def notna_def split: cell.splits)
  qed
  from d rws row show ?thesis by simp
qed

theorem derive_targets_rules_witness:
  "''outcome'' \<in> set (columns merged_example)
   \<and> list_all (\<lambda>r. \<not> is_str (column_get merged_example ''riskScore'' r)) (rows merged_example)
   \<and> (\<exists>M'. derive_targets merged_example = Inr M'
          \<and> (rows M' ! 0) ''target_risk'' = Some (Num 1)
          \<and> (rows M' ! 0) ''target_win'' = Some (Num 1)
          \<and> (rows M' ! 1) ''target_risk'' = Some (Num 1)
          \<and> (rows M' ! 2) ''target_risk'' = Some Null
          \<and> (rows M' ! 2) ''is_closed'' = Some (Num 0)
          \<and> (rows M' ! 3) ''target_risk'' = Some (Num 0))"
proof -
  have h1: "''outcome'' \<in> set (columns merged_example)"
    by (simp add: merged_example_def)
  have h2: "\<forall>r\<in>set (rows merged_example). \<not> is_str (column_get merged_example ''riskScore'' r)"
    by (simp add: merged_example_def column_get_def cell_at_def is_str_def)
  have len: "length (rows merged_example) = 4"
    by (simp add: merged_example_def)
  from derive_targets_rules [OF h1 h2] obtain M' where
    d: "derive_targets merged_example = Inr M'" and
    r: "\<forall>i<4. (rows M' ! i) ''target_win'' =
                    Some (if cell_at (rows merged_example ! i) ''outcome'' = Str ''won'' then Num 1
                          else if cell_at (rows merged_example ! i) ''outcome'' = Str ''lost'' then Num 0
                          else Null)
               \<and> (rows M' ! i) ''target_risk'' =
                    Some (case column_get merged_example ''riskScore'' (rows merged_example ! i) of
                            Num x \<Rightarrow> Num (if x < 0 then 0 else if 1 < x then 1 else x)
                          | _ \<Rightarrow> if cell_at (rows merged_example ! i) ''outcome'' = Str ''lost'' then Num 1
                                 else if cell_at (rows merged_example ! i) ''outcome'' = Str ''won'' then Num 0
                                 else Null)
               \<and> (rows M' ! i) ''is_closed'' =
                    Some (if cell_at (rows merged_example ! i) ''outcome'' \<noteq> Null then Num 1 else Num 0)"
    unfolding len by blast
  have "(0::nat) < 4" "(1::nat) < 4" "(2::nat) < 4" "(3::nat) < 4" by simp_all
  with r have
    "(rows M' ! 0) ''target_risk'' = Some (Num 1)"
    "(rows M' ! 0) ''target_win'' = Some (Num 1)"
    "(rows M' ! 1) ''target_risk'' = Some (Num 1)"
    "(rows M' ! 2) ''target_risk'' = Some Null"
    "(rows M' ! 2) ''is_closed'' = Some (Num 0)"
    "(rows M' ! 3) ''target_risk'' = Some (Num 0)"
    by (simp_all add: merged_example_def column_get_def cell_at_def)
  with h1 h2 d show ?thesis by (simp add: list_all_iff)
qed

lemma dedup_first_is_first:
  "r \<in> set (dedup_first ks seen rs) \<Longrightarrow> find (\<lambda>x. key_of ks x = key_of ks r) rs = Some r"
proof (induction rs arbitrary: seen)
  case Nil
  then show ?case by simp
next
  case (Cons a rs)
  show ?case
  proof (cases "key_of ks a \<in> set seen")
    case True
    with Cons.prems have in_rest: "r \<in> set (dedup_first ks seen rs)" by simp
    then have "key_of ks r \<notin> set seen" by (rule dedup_first_unseen)
    with True have "key_of ks a \<noteq> key_of ks r" by auto
    with Cons.IH [OF in_rest] show ?thesis by simp
  next
    case False
    with Cons.prems have "r = a \<or> r \<in> set (dedup_first ks (key_of ks a # seen) rs)" by simp
    then show ?thesis
    proof
      assume "r = a"
      then show ?thesis by simp
    next
      assume in_rest: "r \<in> set (dedup_first ks (key_of ks a # seen) rs)"
      then have "key_of ks r \<notin> set (key_of ks a # seen)" by (rule dedup_first_unseen)
      then have "key_of ks a \<noteq> key_of ks r" by auto
      with Cons.IH [OF in_rest] show ?thesis by simp
    qed
  qed
qed

lemma scenario_A_joined:
  "joiner scenario_A_evals scenario_A_outcomes = Inr (join_tables scenario_A_evals scenario_A_outcomes_keyed)"
proof (rule joiner_ok)
  show "normalize_keys scenario_A_evals scenario_A_outcomes = Inr scenario_A_outcomes_keyed"
    by (simp add: normalize_keys_def df_empty_def first_missing_def scenario_A_evals_def scenario_A_outcomes_def scenario_A_outcomes_keyed_def cell_at_def)
  show "\<not> incompatible_keys join_keys scenario_A_evals scenario_A_outcomes_keyed"
    by (simp add: incompatible_keys_def string_column_def join_keys_def cell_at_def is_str_def scenario_A_evals_def scenario_A_outcomes_def scenario_A_outcomes_keyed_def assign_scalar_def assign_rowwise_def)
  show "distinct (columns scenario_A_evals @ map (right_label (columns scenario_A_evals))
          (filter (\<lambda>c. c \<notin> set join_keys) (columns scenario_A_outcomes_keyed)))"
    by (simp add: right_label_def join_keys_def scenario_A_evals_def scenario_A_outcomes_def scenario_A_outcomes_keyed_def assign_scalar_def assign_rowwise_def)
qed

lemma scenario_A_run_aux:
  "\<exists>M T. joiner scenario_A_evals scenario_A_outcomes = Inr M \<and> derive_targets M = Inr T
         \<and> length (rows T) = 3
         \<and> (rows T ! 0) ''outcome'' = Some (Str ''won'')
         \<and> (rows T ! 0) ''is_closed'' = Some (Num 1)
         \<and> (rows T ! 0) ''target_win'' = Some (Num 1)
         \<and> (rows T ! 1) ''outcome'' = Some (Str ''won'')
         \<and> (rows T ! 1) ''is_closed'' = Some (Num 1)
         \<and> (rows T ! 1) ''target_win'' = Some (Num 1)"
  unfolding scenario_A_joined
  by (simp add: scenario_A_evals_def scenario_A_outcomes_keyed_def
        scenario_A_outcomes_def assign_scalar_def assign_rowwise_def join_tables_def
        without_out_columns_def merged_frame_def drop_duplicates_def join_keys_def key_of_def cell_at_def
        merged_row_def right_label_def endswith_def without_column_def derive_targets_def Let_def
        column_get_def is_str_def target_win_of_def clip01_def outcome_risk_def notna_def
        promote_def unmatched_def upcast_cell_def)

text \<open>
  C3. The joiner first collapses the outcome frame to at most one row for each pair
  (\<^verbatim>\<open>tenantId\<close>, \<^verbatim>\<open>opportunityId\<close>), keeping the first row of each key in input
  order, and joins after that: the deduplicated rows have distinct keys, looking a key up in
  them finds the first row of the input with that key, and whenever the joiner returns a
  frame, an outcome cell of a joined row is that of the first outcome row with the key of its
  evaluation row (after the back-fill of \<^verbatim>\<open>tenantId\<close>), cast to float64 when the merge
  has introduced nulls, and null when there is no such row. In Scenario A (three
  evaluation rows, two of them with opportunity 1 of tenant t1; outcome "won" for
  opportunity 1 followed by a duplicate "lost") both rows of opportunity 1 receive "won",
  \<^verbatim>\<open>is_closed\<close> 1 and \<^verbatim>\<open>target_win\<close> 1.
\<close>

theorem first_outcome_wins:
  "distinct (map (key_of join_keys) (rows (drop_duplicates join_keys Oc)))
   \<and> find (\<lambda>r. key_of join_keys r = k) (rows (drop_duplicates join_keys Oc))
       = find (\<lambda>r. key_of join_keys r = k) (rows Oc)
   \<and> (normalize_keys E Oc = Inr O' \<longrightarrow> joiner E Oc = Inr M \<longrightarrow>
        (\<forall>i<length (rows E). \<forall>c\<in>set (columns O').
          c \<notin> set (columns E) \<longrightarrow> c \<notin> set join_keys \<longrightarrow> \<not> endswith c ''_out'' \<longrightarrow>
          (rows M ! i) c =
            Some (case find (\<lambda>r. key_of join_keys r = key_of join_keys (rows E ! i)) (rows O') of
                    None \<Rightarrow> Null
                  | Some r \<Rightarrow> promote join_keys E O' (cell_at r c))))
   \<and> (\<exists>M T. joiner scenario_A_evals scenario_A_outcomes = Inr M \<and> derive_targets M = Inr T
         \<and> length (rows T) = 3
         \<and> (rows T ! 0) ''outcome'' = Some (Str ''won'')
         \<and> (rows T ! 0) ''is_closed'' = Some (Num 1)
         \<and> (rows T ! 0) ''target_win'' = Some (Num 1)
         \<and> (rows T ! 1) ''outcome'' = Some (Str ''won'')
         \<and> (rows T ! 1) ''is_closed'' = Some (Num 1)
         \<and> (rows T ! 1) ''target_win'' = Some (Num 1))"
proof -
  have a: "distinct (map (key_of join_keys) (rows (drop_duplicates join_keys Oc)))"
    by (simp add: drop_duplicates_def dedup_first_distinct)
  have b: "find (\<lambda>r. key_of join_keys r = k) (rows (drop_duplicates join_keys Oc))
       = find (\<lambda>r. key_of join_keys r = k) (rows Oc)"
    by (simp add: drop_duplicates_def dedup_first_find)
  have c: "normalize_keys E Oc = Inr O' \<longrightarrow> joiner E Oc = Inr M \<longrightarrow>
        (\<forall>i<length (rows E). \<forall>c\<in>set (columns O').
          c \<notin> set (columns E) \<longrightarrow> c \<notin> set join_keys \<longrightarrow> \<not> endswith c ''_out'' \<longrightarrow>
          (rows M ! i) c =
            Some (case find (\<lambda>r. key_of join_keys r = key_of join_keys (rows E ! i)) (rows O') of
                    None \<Rightarrow> Null
                  | Some r \<Rightarrow> promote join_keys E O' (cell_at r c)))"
  proof (intro impI allI ballI)
    fix i c
    assume n: "normalize_keys E Oc = Inr O'" and j: "joiner E Oc = Inr M"
      and that: "i < length (rows E)" "c \<in> set (columns O')" "c \<notin> set (columns E)"
        "c \<notin> set join_keys" "\<not> endswith c ''_out''"
    from joiner_InrD [OF j] n have m: "M = join_tables E O'" by auto
    from join_tables_right_cell [OF that]
    show "(rows M ! i) c =
            Some (case find (\<lambda>r. key_of join_keys r = key_of join_keys (rows E ! i)) (rows O') of
                    None \<Rightarrow> Null
                  | Some r \<Rightarrow> promote join_keys E O' (cell_at r c))"
      unfolding m by (simp add: matched_def split: option.splits)
  qed
  from a b c scenario_A_run_aux show ?thesis by blast
qed

theorem first_outcome_wins_witness:
  "\<exists>M. joiner scenario_A_evals scenario_A_outcomes = Inr M
       \<and> (rows M ! 1) ''outcome'' = Some (Str ''won'')"
proof -
  let ?M = "join_tables scenario_A_evals scenario_A_outcomes_keyed"
  have n: "normalize_keys scenario_A_evals scenario_A_outcomes = Inr scenario_A_outcomes_keyed"
    by (simp add: normalize_keys_def df_empty_def first_missing_def scenario_A_evals_def
          scenario_A_outcomes_def scenario_A_outcomes_keyed_def cell_at_def)
  have i: "1 < length (rows scenario_A_evals)"
    by (simp add: scenario_A_evals_def)
  have c1: "''outcome'' \<in> set (columns scenario_A_outcomes_keyed)"
    by (simp add: scenario_A_outcomes_keyed_def scenario_A_outcomes_def assign_scalar_def assign_rowwise_def)
  have c2: "''outcome'' \<notin> set (columns scenario_A_evals)"
    by (simp add: scenario_A_evals_def)
  have c3: "''outcome'' \<notin> set join_keys"
    by (simp add: join_keys_def)
  have c4: "\<not> endswith ''outcome'' ''_out''"
    by (simp add: endswith_def)
  from first_outcome_wins [of scenario_A_outcomes _ scenario_A_evals scenario_A_outcomes_keyed ?M]
    n scenario_A_joined i c1 c2 c3 c4
  have "(rows ?M ! 1) ''outcome'' =
          Some (case find (\<lambda>r. key_of join_keys r = key_of join_keys (rows scenario_A_evals ! 1))
                       (rows scenario_A_outcomes_keyed) of
                  None \<Rightarrow> Null
                | Some r \<Rightarrow> promote join_keys scenario_A_evals scenario_A_outcomes_keyed (cell_at r ''outcome''))"
    by blast
  then have "(rows ?M ! 1) ''outcome'' = Some (Str ''won'')"
    by (simp add: scenario_A_evals_def scenario_A_outcomes_keyed_def scenario_A_outcomes_def
          assign_scalar_def assign_rowwise_def join_keys_def key_of_def cell_at_def)
  with scenario_A_joined show ?thesis by blast
qed

lemma joiner_rows_nonempty:
  assumes "joiner E Oc = Inr M"
  shows "rows M \<noteq> []"
proof -
  from joiner_InrD [OF assms] obtain O' where n: "normalize_keys E Oc = Inr O'" and m: "M = join_tables E O'"
    by blast
  from n have "\<not> df_empty E"
    by (auto simp: normalize_keys_def split: if_splits)
  then have "rows E \<noteq> []" by (simp add: df_empty_def)
  with m length_join_tables [of E O'] show ?thesis by auto
qed

lemma derive_targets_absent_outcome:
  "''outcome'' \<notin> set (columns M) \<Longrightarrow> rows M \<noteq> [] \<Longrightarrow> derive_targets M = Inl ValueError"
  by (simp add: derive_targets_def)

text \<open>
  C4. The claim: on a merged frame without any \<^verbatim>\<open>outcome\<close> column, target derivation
  completes and every row is not closed. The code: \<^verbatim>\<open>merged.get("outcome", pd.Series(dtype=object))\<close>
  yields a series of length zero, so \<^verbatim>\<open>np.where\<close> returns an array of length zero, and
  assigning it to \<^verbatim>\<open>merged["target_win"]\<close> raises ValueError, since the merged frame
  has as many rows as the non-empty evaluation frame. Whenever the joined frame lacks the
  column, the run ends in that exception, in every mode.
\<close>

theorem absent_outcome_raises:
  assumes "joiner E Oc = Inr M" and "''outcome'' \<notin> set (columns M)"
  shows "main fs a (Some E) (Some Oc) = Inl ValueError
         \<and> exit_code (main fs a (Some E) (Some Oc)) = 1"
proof -
  from assms(1) have "rows M \<noteq> []" by (rule joiner_rows_nonempty)
  with assms(2) have "derive_targets M = Inl ValueError"
    by (rule derive_targets_absent_outcome)
  with assms(1) show ?thesis
    by (simp add: main_def exit_code_def)
qed

theorem absent_outcome_raises_witness:
  "main local_fs (plain_args Outcome_joined) (Some no_outcome_evals) (Some no_outcome_outcomes)
     = Inl ValueError"
proof -
  have j: "joiner no_outcome_evals no_outcome_outcomes = Inr (join_tables no_outcome_evals no_outcome_outcomes)"
  proof (rule joiner_ok)
    show "normalize_keys no_outcome_evals no_outcome_outcomes = Inr no_outcome_outcomes"
      by (simp add: normalize_keys_def df_empty_def first_missing_def no_outcome_evals_def no_outcome_outcomes_def)
    show "\<not> incompatible_keys join_keys no_outcome_evals no_outcome_outcomes"
      by (simp add: incompatible_keys_def string_column_def join_keys_def cell_at_def is_str_def no_outcome_evals_def no_outcome_outcomes_def assign_scalar_def assign_rowwise_def)
    show "distinct (columns no_outcome_evals @ map (right_label (columns no_outcome_evals))
            (filter (\<lambda>c. c \<notin> set join_keys) (columns no_outcome_outcomes)))"
      by (simp add: right_label_def join_keys_def no_outcome_evals_def no_outcome_outcomes_def assign_scalar_def assign_rowwise_def)
  qed
  have c: "''outcome'' \<notin> set (columns (join_tables no_outcome_evals no_outcome_outcomes))"
    by (simp add: columns_join_tables no_outcome_evals_def no_outcome_outcomes_def join_keys_def
          right_label_def endswith_def)
  from absent_outcome_raises [OF j c] show ?thesis by simp
qed

section \<open>Properties of the mode projector\<close>

lemma rows_assign_rowwise: "rows (assign_rowwise c f t) = map (\<lambda>r. r(c \<mapsto> f r)) (rows t)"
  by (simp add: assign_rowwise_def)

lemma set_columns_assign_rowwise: "set (columns (assign_rowwise c f t)) = insert c (set (columns t))"
  by (auto simp: assign_rowwise_def)

lemma rows_assign_scalar: "rows (assign_scalar c v t) = map (\<lambda>r. r(c \<mapsto> v)) (rows t)"
  by (simp add: assign_scalar_def rows_assign_rowwise)

lemma set_columns_assign_scalar: "set (columns (assign_scalar c v t)) = insert c (set (columns t))"
  by (simp add: assign_scalar_def set_columns_assign_rowwise)

lemma rows_put_placeholders: "rows (put_placeholders t) = map placeholder_row (rows t)"
  by (simp add: put_placeholders_def PLACEHOLDER_def rows_assign_scalar comp_def placeholder_row_def)

lemma set_columns_put_placeholders:
  "set (columns (put_placeholders t)) = set (map fst PLACEHOLDER) \<union> set (columns t)"
  by (auto simp: put_placeholders_def PLACEHOLDER_def set_columns_assign_scalar)

lemma rows_fill_amount:
  "rows (fill_amount t) =
     map (\<lambda>r. r(''amount'' \<mapsto> (if ''amount'' \<in> set (columns t) then fillna (Num 0) (cell_at r ''amount'') else Num 0)))
       (rows t)"
  by (simp add: fill_amount_def rows_assign_scalar rows_assign_rowwise)

lemma set_columns_fill_amount: "set (columns (fill_amount t)) = insert ''amount'' (set (columns t))"
  by (simp add: fill_amount_def set_columns_assign_scalar set_columns_assign_rowwise)

lemma rows_risk_score_latest:
  "rows (risk_score_latest t) =
     map (\<lambda>r. r(''risk_score_latest'' \<mapsto>
                 (if ''riskScore'' \<in> set (columns t) then fillna (Num 0.5) (cell_at r ''riskScore'') else Num 0.5)))
       (rows t)"
  by (simp add: risk_score_latest_def rows_assign_scalar rows_assign_rowwise)

lemma set_columns_risk_score_latest:
  "set (columns (risk_score_latest t)) = insert ''risk_score_latest'' (set (columns t))"
  by (simp add: risk_score_latest_def set_columns_assign_scalar set_columns_assign_rowwise)

lemma select_columns_ok:
  "set cs \<subseteq> set (columns t) \<Longrightarrow>
   select_columns cs t = Inr \<lparr>columns = cs, rows = map (\<lambda>r. r |` set cs) (rows t)\<rparr>"
proof -
  assume "set cs \<subseteq> set (columns t)"
  then have "filter (\<lambda>c. c \<notin> set (columns t)) cs = []"
    by (auto simp: filter_empty_conv)
  then show ?thesis by (simp add: select_columns_def)
qed

lemma select_columns_InrD:
  "select_columns cs t = Inr out \<Longrightarrow>
   out = \<lparr>columns = cs, rows = map (\<lambda>r. r |` set cs) (rows t)\<rparr>"
  by (auto simp: select_columns_def split: list.splits)

lemma select_columns_not_NoTrainable: "select_columns cs t \<noteq> Inl (NoTrainableRows x)"
  by (auto simp: select_columns_def split: list.splits)

lemma cell_at_upd: "cell_at (r(c \<mapsto> v)) c' = (if c' = c then v else cell_at r c')"
  by (simp add: cell_at_def)

lemma cell_at_placeholder_row:
  "c \<notin> set (map fst PLACEHOLDER) \<Longrightarrow> cell_at (placeholder_row r) c = cell_at r c"
  by (simp add: PLACEHOLDER_def placeholder_row_def cell_at_def)

lemma risk_scoring_rows:
  "rows (risk_score_latest (fill_amount (put_placeholders m))) =
     map (\<lambda>r. (placeholder_row r)
       (''amount'' \<mapsto> (if ''amount'' \<in> set (columns m) then fillna (Num 0) (cell_at r ''amount'') else Num 0),
        ''risk_score_latest'' \<mapsto>
           (if ''riskScore'' \<in> set (columns m) then fillna (Num 0.5) (cell_at r ''riskScore'') else Num 0.5)))
       (rows m)"
  by (simp add: rows_risk_score_latest rows_fill_amount rows_put_placeholders comp_def
        set_columns_fill_amount set_columns_put_placeholders PLACEHOLDER_def
        cell_at_placeholder_row cell_at_upd)

lemma win_probability_rows:
  "rows (fill_amount (put_placeholders m)) =
     map (\<lambda>r. (placeholder_row r)
       (''amount'' \<mapsto> (if ''amount'' \<in> set (columns m) then fillna (Num 0) (cell_at r ''amount'') else Num 0)))
       (rows m)"
  by (simp add: rows_fill_amount rows_put_placeholders comp_def
        set_columns_put_placeholders PLACEHOLDER_def cell_at_placeholder_row)

lemma project_risk_scoring_eq:
  assumes "''target_risk'' \<in> set (columns t)"
  shows "project_risk_scoring t =
     (if filter (\<lambda>r. cell_at r ''target_risk'' \<noteq> Null) (rows t) = []
      then Inl (NoTrainableRows ''target_risk'')
      else select_columns ([''tenantId'', ''opportunityId''] @ req_risk @ [''risk_score_latest''])
             (risk_score_latest (fill_amount (put_placeholders
                (filter_rows (\<lambda>r. notna (cell_at r ''target_risk'')) t)))))"
proof -
  from assms have "columns t \<noteq> []" by auto
  with assms show ?thesis
    by (simp add: project_risk_scoring_def dropna_def df_empty_def filter_rows_def notna_def)
qed

lemma project_risk_scoring_ok:
  assumes "''target_risk'' \<in> set (columns t)" "''tenantId'' \<in> set (columns t)"
    "''opportunityId'' \<in> set (columns t)"
  shows "project_risk_scoring t =
     (if filter (\<lambda>r. cell_at r ''target_risk'' \<noteq> Null) (rows t) = []
      then Inl (NoTrainableRows ''target_risk'')
      else Inr \<lparr>columns = [''tenantId'', ''opportunityId''] @ req_risk @ [''risk_score_latest''],
                rows = map (risk_scoring_row t)
                         (filter (\<lambda>r. cell_at r ''target_risk'' \<noteq> Null) (rows t))\<rparr>)"
proof -
  let ?m = "filter_rows (\<lambda>r. notna (cell_at r ''target_risk'')) t"
  let ?L = "[''tenantId'', ''opportunityId''] @ req_risk @ [''risk_score_latest'']"
  have cols: "columns ?m = columns t" by (simp add: filter_rows_def)
  have sub: "set ?L \<subseteq> set (columns (risk_score_latest (fill_amount (put_placeholders ?m))))"
    using assms
    by (simp add: set_columns_risk_score_latest set_columns_fill_amount set_columns_put_placeholders
          cols req_risk_def PLACEHOLDER_def)
  have rws: "rows ?m = filter (\<lambda>r. cell_at r ''target_risk'' \<noteq> Null) (rows t)"
    by (simp add: filter_rows_def notna_def)
  show ?thesis
    unfolding project_risk_scoring_eq [OF assms(1)] select_columns_ok [OF sub] risk_scoring_rows
    by (simp add: cols rws comp_def risk_scoring_row_def)
qed

lemma main_after_targets:
  "joiner E Oc = Inr M \<Longrightarrow> derive_targets M = Inr T \<Longrightarrow>
   main fs a (Some E) (Some Oc) =
     (case project (model a) (tenant_filter (tenant_id a) T) of
        Inl e \<Rightarrow> Inl e
      | Inr out_df \<Rightarrow> write_parquet fs (resolve_path fs (partition_date a) (output_path a)) out_df)"
  by (simp add: main_def)

lemma columns_tenant_filter: "columns (tenant_filter tid t) = columns t"
  by (simp add: tenant_filter_def filter_rows_def split: option.splits)

lemma rows_tenant_filter:
  "rows (tenant_filter tid t) =
     (case tid of
        None \<Rightarrow> rows t
      | Some x \<Rightarrow> if x \<noteq> [] \<and> ''tenantId'' \<in> set (columns t)
                  then filter (\<lambda>r. cell_at r ''tenantId'' = Str x) (rows t) else rows t)"
  by (simp add: tenant_filter_def filter_rows_def split: option.splits)

lemma set_rows_tenant_filter: "set (rows (tenant_filter tid t)) \<subseteq> set (rows t)"
  by (auto simp: rows_tenant_filter split: option.splits)

lemma derive_targets_InrD:
  assumes "derive_targets M = Inr T"
  shows "rows T = map (derived_row M) (rows M)"
    and "set (columns T) = {''target_win'', ''target_risk'', ''is_closed''} \<union> set (columns M)"
proof -
  from assms have a: "''outcome'' \<in> set (columns M) \<or> rows M = []"
    by (auto simp: derive_targets_def split: if_splits)
  from assms have "\<not> (''riskScore'' \<in> set (columns M)
      \<and> list_ex (\<lambda>r. is_str (cell_at r ''riskScore'')) (rows M))"
    by (auto simp: derive_targets_def split: if_splits)
  then have b: "\<forall>r\<in>set (rows M). \<not> is_str (column_get M ''riskScore'' r)"
    by (auto simp: list_ex_iff column_get_def is_str_def)
  from derive_targets_ok [OF a b] assms
  have T: "T = \<lparr>columns = columns (assign_rowwise ''is_closed'' (\<lambda>_. Null)
                        (assign_rowwise ''target_risk'' (\<lambda>_. Null)
                           (assign_rowwise ''target_win'' (\<lambda>_. Null) M))),
          rows = map (derived_row M) (rows M)\<rparr>"
    unfolding derived_row_def by simp
  show "rows T = map (derived_row M) (rows M)"
    by (subst T) simp
  show "set (columns T) = {''target_win'', ''target_risk'', ''is_closed''} \<union> set (columns M)"
    by (subst T) (auto simp: set_columns_assign_rowwise)
qed

lemma joiner_key_columns:
  assumes "joiner E Oc = Inr M"
  shows "''tenantId'' \<in> set (columns M)" and "''opportunityId'' \<in> set (columns M)"
proof -
  from joiner_InrD [OF assms] obtain O' where n: "normalize_keys E Oc = Inr O'" and m: "M = join_tables E O'"
    by blast
  from n have "first_missing [''tenantId'', ''opportunityId''] E = None"
    by (auto simp: normalize_keys_def split: if_splits option.splits)
  then have "''tenantId'' \<in> set (columns E) \<and> ''opportunityId'' \<in> set (columns E)"
    by (auto simp: first_missing_def split: list.splits if_splits)
  then show "''tenantId'' \<in> set (columns M)" and "''opportunityId'' \<in> set (columns M)"
    by (simp_all add: m columns_join_tables endswith_def)
qed

lemma restrict_apply: "(m |` A) c = (if c \<in> A then m c else None)"
  by (simp add: restrict_map_def)

lemma placeholder_row_other:
  "c \<notin> set (map fst PLACEHOLDER) \<Longrightarrow> placeholder_row r c = r c"
  by (simp add: PLACEHOLDER_def placeholder_row_def)

lemma placeholder_row_value:
  "(k, v) \<in> set PLACEHOLDER \<Longrightarrow> placeholder_row r k = Some v"
  by (auto simp: PLACEHOLDER_def placeholder_row_def)

lemma risk_scoring_row_keep:
  "c \<in> {''tenantId'', ''opportunityId'', ''target_risk''} \<Longrightarrow> risk_scoring_row t r c = r c"
  unfolding risk_scoring_row_def restrict_apply
  by (auto simp: req_risk_def placeholder_row_other PLACEHOLDER_def)

lemma risk_scoring_row_placeholder:
  "(k, v) \<in> set PLACEHOLDER \<Longrightarrow> risk_scoring_row t r k = Some v"
  unfolding risk_scoring_row_def restrict_apply
  by (auto simp: req_risk_def placeholder_row_value PLACEHOLDER_def)

lemma win_probability_row_keep:
  "c \<in> {''tenantId'', ''opportunityId'', ''target_win'', ''is_closed''} \<Longrightarrow> win_probability_row t r c = r c"
  unfolding win_probability_row_def restrict_apply
  by (auto simp: req_win_def placeholder_row_other PLACEHOLDER_def)

lemma win_probability_row_placeholder:
  "(k, v) \<in> set PLACEHOLDER \<Longrightarrow> win_probability_row t r k = Some v"
  unfolding win_probability_row_def restrict_apply
  by (auto simp: req_win_def placeholder_row_value PLACEHOLDER_def)

text \<open>
  C5. In \<^verbatim>\<open>risk_scoring\<close> mode every row whose \<^verbatim>\<open>target_risk\<close> is null is dropped:
  the output rows are those of the remaining rows, in order. The projection fails with
  NoTrainableRows exactly when no row remains, and then nothing is written and the exit status
  is not zero. In particular (Scenario B), when every merged row has a null risk score and a
  null outcome, the run fails with NoTrainableRows.
\<close>

theorem risk_scoring_no_trainable_rows:
  "(''target_risk'' \<in> set (columns t) \<longrightarrow> ''tenantId'' \<in> set (columns t) \<longrightarrow>
    ''opportunityId'' \<in> set (columns t) \<longrightarrow>
      ((project Risk_scoring t = Inl (NoTrainableRows ''target_risk''))
         = (filter (\<lambda>r. cell_at r ''target_risk'' \<noteq> Null) (rows t) = []))
      \<and> (filter (\<lambda>r. cell_at r ''target_risk'' \<noteq> Null) (rows t) \<noteq> [] \<longrightarrow>
           (\<exists>out. project Risk_scoring t = Inr out
              \<and> map (\<lambda>r. (r ''tenantId'', r ''opportunityId'', r ''target_risk'')) (rows out)
                = map (\<lambda>r. (r ''tenantId'', r ''opportunityId'', r ''target_risk''))
                    (filter (\<lambda>r. cell_at r ''target_risk'' \<noteq> Null) (rows t)))))
   \<and> (joiner E Oc = Inr M \<longrightarrow> ''outcome'' \<in> set (columns M) \<longrightarrow>
        (\<forall>r\<in>set (rows M). column_get M ''riskScore'' r = Null \<and> cell_at r ''outcome'' = Null) \<longrightarrow>
        model a = Risk_scoring \<longrightarrow>
          main fs a (Some E) (Some Oc) = Inl (NoTrainableRows ''target_risk'')
          \<and> exit_code (main fs a (Some E) (Some Oc)) = 1
          \<and> rows_written (main fs a (Some E) (Some Oc)) = 0)"
proof -
  have part1:
    "''target_risk'' \<in> set (columns t) \<longrightarrow> ''tenantId'' \<in> set (columns t) \<longrightarrow>
     ''opportunityId'' \<in> set (columns t) \<longrightarrow>
     ((project Risk_scoring t = Inl (NoTrainableRows ''target_risk''))
         = (filter (\<lambda>r. cell_at r ''target_risk'' \<noteq> Null) (rows t) = []))
      \<and> (filter (\<lambda>r. cell_at r ''target_risk'' \<noteq> Null) (rows t) \<noteq> [] \<longrightarrow>
           (\<exists>out. project Risk_scoring t = Inr out
              \<and> map (\<lambda>r. (r ''tenantId'', r ''opportunityId'', r ''target_risk'')) (rows out)
                = map (\<lambda>r. (r ''tenantId'', r ''opportunityId'', r ''target_risk''))
                    (filter (\<lambda>r. cell_at r ''target_risk'' \<noteq> Null) (rows t))))"
  proof (intro impI)
    assume c: "''target_risk'' \<in> set (columns t)" "''tenantId'' \<in> set (columns t)"
      "''opportunityId'' \<in> set (columns t)"
    have keep: "(risk_scoring_row t r ''tenantId'', risk_scoring_row t r ''opportunityId'',
                 risk_scoring_row t r ''target_risk'')
                = (r ''tenantId'', r ''opportunityId'', r ''target_risk'')" for r
      by (simp add: risk_scoring_row_keep)
    show "((project Risk_scoring t = Inl (NoTrainableRows ''target_risk''))
         = (filter (\<lambda>r. cell_at r ''target_risk'' \<noteq> Null) (rows t) = []))
      \<and> (filter (\<lambda>r. cell_at r ''target_risk'' \<noteq> Null) (rows t) \<noteq> [] \<longrightarrow>
           (\<exists>out. project Risk_scoring t = Inr out
              \<and> map (\<lambda>r. (r ''tenantId'', r ''opportunityId'', r ''target_risk'')) (rows out)
                = map (\<lambda>r. (r ''tenantId'', r ''opportunityId'', r ''target_risk''))
                    (filter (\<lambda>r. cell_at r ''target_risk'' \<noteq> Null) (rows t))))"
      by (simp add: project_risk_scoring_ok [OF c] comp_def keep)
  qed
  have part2:
    "joiner E Oc = Inr M \<longrightarrow> ''outcome'' \<in> set (columns M) \<longrightarrow>
        (\<forall>r\<in>set (rows M). column_get M ''riskScore'' r = Null \<and> cell_at r ''outcome'' = Null) \<longrightarrow>
        model a = Risk_scoring \<longrightarrow>
          main fs a (Some E) (Some Oc) = Inl (NoTrainableRows ''target_risk'')
          \<and> exit_code (main fs a (Some E) (Some Oc)) = 1
          \<and> rows_written (main fs a (Some E) (Some Oc)) = 0"
  proof (intro impI)
    assume j: "joiner E Oc = Inr M" and oc: "''outcome'' \<in> set (columns M)"
      and nulls: "\<forall>r\<in>set (rows M). column_get M ''riskScore'' r = Null \<and> cell_at r ''outcome'' = Null"
      and mode: "model a = Risk_scoring"
    from nulls have "\<forall>r\<in>set (rows M). \<not> is_str (column_get M ''riskScore'' r)"
      by (simp add: is_str_def)
    with oc obtain T where d: "derive_targets M = Inr T"
      using derive_targets_ok [of M] by blast
    let ?F = "tenant_filter (tenant_id a) T"
    have tr: "''target_risk'' \<in> set (columns ?F)"
      by (simp add: columns_tenant_filter derive_targets_InrD(2) [OF d])
    have "cell_at r ''target_risk'' = Null" if "r \<in> set (rows T)" for r
    proof -
      from that obtain r0 where r0: "r0 \<in> set (rows M)" and r: "r = derived_row M r0"
        by (auto simp: derive_targets_InrD(1) [OF d])
      from nulls r0 oc have "column_get M ''riskScore'' r0 = Null" "column_get M ''outcome'' r0 = Null"
        by (simp_all add: column_get_def)
      then show ?thesis
        by (simp add: r derived_row_def cell_at_upd clip01_def notna_def outcome_risk_def)
    qed
    with set_rows_tenant_filter [of "tenant_id a" T]
    have "filter (\<lambda>r. cell_at r ''target_risk'' \<noteq> Null) (rows ?F) = []"
      by (auto simp: filter_empty_conv)
    then have "project Risk_scoring ?F = Inl (NoTrainableRows ''target_risk'')"
      by (simp add: project_risk_scoring_eq [OF tr])
    then show "main fs a (Some E) (Some Oc) = Inl (NoTrainableRows ''target_risk'')
          \<and> exit_code (main fs a (Some E) (Some Oc)) = 1
          \<and> rows_written (main fs a (Some E) (Some Oc)) = 0"
      by (simp add: main_after_targets [OF j d] mode exit_code_def rows_written_def)
  qed
  from part1 part2 show ?thesis by (rule conjI)
qed

theorem risk_scoring_no_trainable_rows_witness:
  "main local_fs (plain_args Risk_scoring) (Some scenario_B_evals) (Some scenario_B_outcomes)
     = Inl (NoTrainableRows ''target_risk'')"
proof -
  let ?M = "join_tables scenario_B_evals scenario_B_outcomes"
  have j: "joiner scenario_B_evals scenario_B_outcomes = Inr ?M"
  proof (rule joiner_ok)
    show "normalize_keys scenario_B_evals scenario_B_outcomes = Inr scenario_B_outcomes"
      by (simp add: normalize_keys_def df_empty_def first_missing_def scenario_B_evals_def scenario_B_outcomes_def)
    show "\<not> incompatible_keys join_keys scenario_B_evals scenario_B_outcomes"
      by (simp add: incompatible_keys_def string_column_def join_keys_def cell_at_def is_str_def scenario_B_evals_def scenario_B_outcomes_def assign_scalar_def assign_rowwise_def)
    show "distinct (columns scenario_B_evals @ map (right_label (columns scenario_B_evals))
            (filter (\<lambda>c. c \<notin> set join_keys) (columns scenario_B_outcomes)))"
      by (simp add: right_label_def join_keys_def scenario_B_evals_def scenario_B_outcomes_def assign_scalar_def assign_rowwise_def)
  qed
  have c: "''outcome'' \<in> set (columns ?M)"
    by (simp add: columns_join_tables scenario_B_evals_def scenario_B_outcomes_def join_keys_def
          right_label_def endswith_def)
  have n: "\<forall>r\<in>set (rows ?M). column_get ?M ''riskScore'' r = Null \<and> cell_at r ''outcome'' = Null"
    by (simp add: scenario_B_evals_def scenario_B_outcomes_def join_tables_def
        without_out_columns_def merged_frame_def drop_duplicates_def join_keys_def key_of_def cell_at_def
        merged_row_def right_label_def endswith_def without_column_def Let_def column_get_def
        promote_def unmatched_def upcast_cell_def)
  have m: "model (plain_args Risk_scoring) = Risk_scoring"
    by (simp add: plain_args_def)
  from risk_scoring_no_trainable_rows [of _ scenario_B_evals scenario_B_outcomes ?M "plain_args Risk_scoring" local_fs]
  have "joiner scenario_B_evals scenario_B_outcomes = Inr ?M \<longrightarrow> ''outcome'' \<in> set (columns ?M) \<longrightarrow>
        (\<forall>r\<in>set (rows ?M). column_get ?M ''riskScore'' r = Null \<and> cell_at r ''outcome'' = Null) \<longrightarrow>
        model (plain_args Risk_scoring) = Risk_scoring \<longrightarrow>
          main local_fs (plain_args Risk_scoring) (Some scenario_B_evals) (Some scenario_B_outcomes)
            = Inl (NoTrainableRows ''target_risk'')
          \<and> exit_code (main local_fs (plain_args Risk_scoring) (Some scenario_B_evals) (Some scenario_B_outcomes)) = 1
          \<and> rows_written (main local_fs (plain_args Risk_scoring) (Some scenario_B_evals) (Some scenario_B_outcomes)) = 0"
    by (rule conjunct2)
  with j c n m show ?thesis by (simp only:)
qed

lemma project_win_probability_eq:
  assumes "''is_closed'' \<in> set (columns t)" "''target_win'' \<in> set (columns t)"
  shows "project_win_probability t =
     (if filter closed_with_target (rows t) = []
      then Inl (NoTrainableRows ''target_win'')
      else select_columns ([''tenantId'', ''opportunityId''] @ req_win)
             (fill_amount (put_placeholders \<lparr>columns = columns t, rows = filter closed_with_target (rows t)\<rparr>)))"
proof -
  from assms have "columns t \<noteq> []" by auto
  moreover have "filter (\<lambda>r. notna (cell_at r ''target_win'')) (filter (\<lambda>r. cell_at r ''is_closed'' = Num 1) (rows t))
      = filter closed_with_target (rows t)"
    by (simp add: closed_with_target_def [abs_def] notna_def conj_commute)
  ultimately show ?thesis
    using assms
    by (simp add: project_win_probability_def dropna_def df_empty_def filter_rows_def)
qed

lemma project_win_probability_ok:
  assumes "''is_closed'' \<in> set (columns t)" "''target_win'' \<in> set (columns t)"
    "''tenantId'' \<in> set (columns t)" "''opportunityId'' \<in> set (columns t)"
  shows "project_win_probability t =
     (if filter closed_with_target (rows t) = []
      then Inl (NoTrainableRows ''target_win'')
      else Inr \<lparr>columns = [''tenantId'', ''opportunityId''] @ req_win,
                rows = map (win_probability_row t) (filter closed_with_target (rows t))\<rparr>)"
proof -
  let ?m = "\<lparr>columns = columns t, rows = filter closed_with_target (rows t)\<rparr>"
  let ?L = "[''tenantId'', ''opportunityId''] @ req_win"
  have sub: "set ?L \<subseteq> set (columns (fill_amount (put_placeholders ?m)))"
    using assms
    by (simp add: set_columns_fill_amount set_columns_put_placeholders req_win_def PLACEHOLDER_def)
  show ?thesis
    unfolding project_win_probability_eq [OF assms(1,2)] select_columns_ok [OF sub] win_probability_rows
    by (simp add: comp_def win_probability_row_def)
qed

lemma scenario_C_joined:
  "joiner scenario_C_evals scenario_C_outcomes = Inr (join_tables scenario_C_evals scenario_C_outcomes)"
proof (rule joiner_ok)
  show "normalize_keys scenario_C_evals scenario_C_outcomes = Inr scenario_C_outcomes"
    by (simp add: normalize_keys_def df_empty_def first_missing_def scenario_C_evals_def scenario_C_outcomes_def)
  show "\<not> incompatible_keys join_keys scenario_C_evals scenario_C_outcomes"
    by (simp add: incompatible_keys_def string_column_def join_keys_def cell_at_def is_str_def scenario_C_evals_def scenario_C_outcomes_def assign_scalar_def assign_rowwise_def)
  show "distinct (columns scenario_C_evals @ map (right_label (columns scenario_C_evals))
          (filter (\<lambda>c. c \<notin> set join_keys) (columns scenario_C_outcomes)))"
    by (simp add: right_label_def join_keys_def scenario_C_evals_def scenario_C_outcomes_def assign_scalar_def assign_rowwise_def)
qed

lemma scenario_C_outcome_cells:
  "map (\<lambda>r. cell_at r ''outcome'') (rows (join_tables scenario_C_evals scenario_C_outcomes))
     = [Str ''won'', Str ''lost'', Str ''won'', Str ''lost'', Str ''won'', Null, Null]"
  by (simp add: scenario_C_evals_def scenario_C_outcomes_def join_tables_def
        without_out_columns_def merged_frame_def drop_duplicates_def join_keys_def key_of_def cell_at_def
        merged_row_def right_label_def endswith_def without_column_def Let_def
        promote_def unmatched_def upcast_cell_def)

lemma targets_columns:
  assumes "joiner E Oc = Inr M" "derive_targets M = Inr T"
  shows "{''tenantId'', ''opportunityId'', ''target_win'', ''target_risk'', ''is_closed''}
           \<subseteq> set (columns (tenant_filter tid T))"
  using joiner_key_columns [OF assms(1)]
  by (simp add: columns_tenant_filter derive_targets_InrD(2) [OF assms(2)])

lemma main_win_probability:
  assumes "joiner E Oc = Inr M" "derive_targets M = Inr T" "model a = Win_probability"
  shows "main fs a (Some E) (Some Oc) =
     (if filter closed_with_target (rows (tenant_filter (tenant_id a) T)) = []
      then Inl (NoTrainableRows ''target_win'')
      else write_parquet fs (resolve_path fs (partition_date a) (output_path a))
             \<lparr>columns = [''tenantId'', ''opportunityId''] @ req_win,
              rows = map (win_probability_row (tenant_filter (tenant_id a) T))
                       (filter closed_with_target (rows (tenant_filter (tenant_id a) T)))\<rparr>)"
proof -
  let ?F = "tenant_filter (tenant_id a) T"
  from targets_columns [OF assms(1,2), of "tenant_id a"]
  have c: "''is_closed'' \<in> set (columns ?F)" "''target_win'' \<in> set (columns ?F)"
    "''tenantId'' \<in> set (columns ?F)" "''opportunityId'' \<in> set (columns ?F)"
    by simp_all
  show ?thesis
    by (simp add: main_after_targets [OF assms(1,2)] assms(3) project_win_probability_ok [OF c])
qed

lemma main_risk_scoring:
  assumes "joiner E Oc = Inr M" "derive_targets M = Inr T" "model a = Risk_scoring"
  shows "main fs a (Some E) (Some Oc) =
     (if filter (\<lambda>r. cell_at r ''target_risk'' \<noteq> Null) (rows (tenant_filter (tenant_id a) T)) = []
      then Inl (NoTrainableRows ''target_risk'')
      else write_parquet fs (resolve_path fs (partition_date a) (output_path a))
             \<lparr>columns = [''tenantId'', ''opportunityId''] @ req_risk @ [''risk_score_latest''],
              rows = map (risk_scoring_row (tenant_filter (tenant_id a) T))
                       (filter (\<lambda>r. cell_at r ''target_risk'' \<noteq> Null)
                          (rows (tenant_filter (tenant_id a) T)))\<rparr>)"
proof -
  let ?F = "tenant_filter (tenant_id a) T"
  from targets_columns [OF assms(1,2), of "tenant_id a"]
  have c: "''target_risk'' \<in> set (columns ?F)"
    "''tenantId'' \<in> set (columns ?F)" "''opportunityId'' \<in> set (columns ?F)"
    by simp_all
  show ?thesis
    by (simp add: main_after_targets [OF assms(1,2)] assms(3) project_risk_scoring_ok [OF c])
qed

subsection \<open>Columns that the writer accepts\<close>

text \<open>A column is mixed when it holds a string and a number. The stages up to the tenant
  filter make no mixed column of frames that have none: a cell of a joined row is null or a
  cell of the same column of one input frame, cast or not; the derived columns hold numbers
  and nulls; the filter only removes rows.\<close>

lemma mixed_column_iff:
  "mixed_column t c =
     ((\<exists>r\<in>set (rows t). is_str (cell_at r c)) \<and> (\<exists>r\<in>set (rows t). is_num (cell_at r c)))"
  by (simp add: mixed_column_def list_ex_iff)

lemma mixed_column_from:
  assumes "mixed_column t c"
    and "\<And>r. r \<in> set (rows t) \<Longrightarrow>
           cell_at r c = Null
           \<or> (\<exists>q\<in>set (rows s). is_str (cell_at r c) = is_str (cell_at q c)
                                \<and> is_num (cell_at r c) = is_num (cell_at q c))"
  shows "mixed_column s c"
proof -
  from assms(1) obtain r1 r2 where r1: "r1 \<in> set (rows t)" "is_str (cell_at r1 c)"
    and r2: "r2 \<in> set (rows t)" "is_num (cell_at r2 c)"
    by (auto simp: mixed_column_iff)
  from assms(2) [OF r1(1)] r1(2) obtain q1 where "q1 \<in> set (rows s)" "is_str (cell_at q1 c)"
    by (auto simp: is_str_def)
  moreover from assms(2) [OF r2(1)] r2(2) obtain q2 where "q2 \<in> set (rows s)" "is_num (cell_at q2 c)"
    by (auto simp: is_num_def)
  ultimately show ?thesis by (auto simp: mixed_column_iff)
qed

lemma promote_kind:
  "is_str (promote ks l r v) = is_str v" "is_num (promote ks l r v) = is_num v"
  by (cases v; simp add: promote_def upcast_cell_def is_str_def is_num_def)+

lemma join_tables_cell_source:
  assumes "r \<in> set (rows (join_tables E O'))"
  shows "cell_at r c = Null
         \<or> (if c \<in> set (columns E) then \<exists>l\<in>set (rows E). cell_at r c = cell_at l c
            else \<exists>q\<in>set (rows O'). cell_at r c = promote join_keys E O' (cell_at q c))"
proof (cases "r c")
  case None
  then show ?thesis by (simp add: cell_at_def)
next
  case (Some v)
  from assms obtain i where i: "i < length (rows E)" and r: "r = rows (join_tables E O') ! i"
    by (metis in_set_conv_nth length_join_tables)
  let ?l = "rows E ! i"
  let ?rv = "\<lambda>c. promote join_keys E O' (matched join_keys (rows O') ?l c)"
  let ?rcols = "filter (\<lambda>c. c \<notin> set join_keys) (columns O')"
  let ?mcols = "columns (merged_frame join_keys E (drop_duplicates join_keys O'))"
  from i have l: "?l \<in> set (rows E)" by simp
  from Some have keep: "\<not> (c \<in> set ?mcols \<and> endswith c ''_out'')"
    and rc: "merged_row (columns E) ?rcols ?l ?rv c = Some v"
    unfolding r join_tables_row [OF i] by (simp_all split: if_splits)
  show ?thesis
  proof (cases "c \<in> set (columns E)")
    case True
    with rc have "v = cell_at ?l c" by (simp add: merged_row_left)
    with Some True l show ?thesis by (auto simp: cell_at_def)
  next
    case False
    with rc have "map_of (map (\<lambda>c. (right_label (columns E) c, ?rv c)) ?rcols) c = Some v"
      by (simp add: merged_row_def map_of_append map_of_graph map_add_def)
    then have "(c, v) \<in> set (map (\<lambda>c. (right_label (columns E) c, ?rv c)) ?rcols)"
      by (rule map_of_SomeD)
    then obtain c' where c': "c' \<in> set ?rcols" "c = right_label (columns E) c'" "v = ?rv c'"
      by auto
    from c'(1,2) have "c \<in> set ?mcols"
      by (simp add: columns_merged_frame drop_duplicates_def)
    with keep have "\<not> endswith c ''_out''" by simp
    with c'(2) have "c' \<notin> set (columns E)" by (auto simp: right_label_def)
    with c'(2) have cc: "c' = c" by (simp add: right_label_def)
    show ?thesis
    proof (cases "find (\<lambda>q. key_of join_keys q = key_of join_keys ?l) (rows O')")
      case None
      with c'(3) cc have "v = Null" by (simp add: matched_def)
      with Some show ?thesis by (simp add: cell_at_def)
    next
      case (Some q)
      then have "q \<in> set (rows O')" by (metis find_Some_iff nth_mem)
      moreover from Some c'(3) cc have "v = promote join_keys E O' (cell_at q c)"
        by (simp add: matched_def)
      ultimately show ?thesis using \<open>r c = Some v\<close> False by (auto simp: cell_at_def)
    qed
  qed
qed

lemma join_tables_not_mixed:
  assumes "mixed_column (join_tables E O') c"
  shows "mixed_column E c \<or> mixed_column O' c"
proof (cases "c \<in> set (columns E)")
  case True
  from assms have "mixed_column E c"
  proof (rule mixed_column_from)
    fix r assume "r \<in> set (rows (join_tables E O'))"
    from join_tables_cell_source [OF this, of c] True
    show "cell_at r c = Null
           \<or> (\<exists>q\<in>set (rows E). is_str (cell_at r c) = is_str (cell_at q c)
                                \<and> is_num (cell_at r c) = is_num (cell_at q c))"
      by auto
  qed
  then show ?thesis ..
next
  case False
  from assms have "mixed_column O' c"
  proof (rule mixed_column_from)
    fix r assume "r \<in> set (rows (join_tables E O'))"
    from join_tables_cell_source [OF this, of c] False
    show "cell_at r c = Null
           \<or> (\<exists>q\<in>set (rows O'). is_str (cell_at r c) = is_str (cell_at q c)
                                \<and> is_num (cell_at r c) = is_num (cell_at q c))"
      by (auto simp: promote_kind)
  qed
  then show ?thesis ..
qed

lemma normalize_keys_not_mixed:
  assumes "normalize_keys E Oc = Inr O'" "mixed_column O' c"
  shows "mixed_column Oc c"
proof -
  from assms(1) consider "O' = Oc" | v where "O' = assign_scalar ''tenantId'' v Oc"
    by (auto simp: normalize_keys_def split: if_splits option.splits)
  then show ?thesis
  proof cases
    case 1
    with assms(2) show ?thesis by simp
  next
    case 2
    with assms(2) show ?thesis
      by (auto simp: mixed_column_iff rows_assign_scalar cell_at_upd is_str_def is_num_def
            split: if_splits cell.splits)
  qed
qed

lemma derived_row_cell:
  "c \<notin> {''target_win'', ''target_risk'', ''is_closed''} \<Longrightarrow> cell_at (derived_row M r) c = cell_at r c"
  by (simp add: derived_row_def cell_at_upd)

lemma derived_row_no_string:
  assumes "c \<in> {''target_win'', ''target_risk'', ''is_closed''}"
    and "\<not> is_str (column_get M ''riskScore'' r)"
  shows "\<not> is_str (cell_at (derived_row M r) c)"
  using assms
  by (auto simp: derived_row_def cell_at_upd is_str_def target_win_of_def outcome_risk_def clip01_def
        split: cell.splits)

lemma derive_targets_numeric_risk:
  assumes "derive_targets M = Inr T"
  shows "\<forall>r\<in>set (rows M). \<not> is_str (column_get M ''riskScore'' r)"
proof -
  from assms have "\<not> (''riskScore'' \<in> set (columns M)
      \<and> list_ex (\<lambda>r. is_str (cell_at r ''riskScore'')) (rows M))"
    by (auto simp: derive_targets_def split: if_splits)
  then show ?thesis
    by (auto simp: list_ex_iff column_get_def is_str_def)
qed

lemma derive_targets_not_mixed:
  assumes "derive_targets M = Inr T" "mixed_column T c"
  shows "mixed_column M c"
proof (cases "c \<in> {''target_win'', ''target_risk'', ''is_closed''}")
  case True
  from derive_targets_numeric_risk [OF assms(1)] True
  have "\<forall>r\<in>set (rows M). \<not> is_str (cell_at (derived_row M r) c)"
    using derived_row_no_string by blast
  with assms(2) show ?thesis
    by (auto simp: mixed_column_iff derive_targets_InrD(1) [OF assms(1)])
next
  case False
  with assms(2) show ?thesis
    by (auto simp: mixed_column_iff derive_targets_InrD(1) [OF assms(1)] derived_row_cell)
qed

lemma tenant_filter_not_mixed:
  "mixed_column (tenant_filter tid T) c \<Longrightarrow> mixed_column T c"
  using set_rows_tenant_filter [of tid T] by (auto simp: mixed_column_iff)

lemma targets_not_mixed:
  assumes "joiner E Oc = Inr M" "derive_targets M = Inr T"
    and "\<And>c. \<not> mixed_column E c" "\<And>c. \<not> mixed_column Oc c"
  shows "\<not> mixed_column (tenant_filter tid T) c"
proof
  assume "mixed_column (tenant_filter tid T) c"
  then have "mixed_column T c" by (rule tenant_filter_not_mixed)
  with assms(2) have m: "mixed_column M c" by (rule derive_targets_not_mixed)
  from joiner_InrD [OF assms(1)] obtain O' where n: "normalize_keys E Oc = Inr O'"
    and M: "M = join_tables E O'" by blast
  from m M have "mixed_column E c \<or> mixed_column O' c"
    by (simp add: join_tables_not_mixed)
  with assms(3) have "mixed_column O' c" by simp
  with n have "mixed_column Oc c" by (rule normalize_keys_not_mixed)
  with assms(4) show False by simp
qed

text \<open>The projections: in \<^verbatim>\<open>outcome_joined\<close> mode a cell is null or a cell of the
  filtered frame. In \<^verbatim>\<open>win_probability\<close> mode the placeholders are numbers, and the
  \<^verbatim>\<open>amount\<close> column, nulls filled with 0, is mixed exactly when it held a string and
  a null or a number.\<close>

lemma win_probability_row_no_string:
  assumes "c \<notin> {''tenantId'', ''opportunityId'', ''target_win'', ''is_closed''}"
    and "''amount'' \<in> set (columns F) \<longrightarrow> \<not> is_str (cell_at r ''amount'')"
  shows "\<not> is_str (cell_at (win_probability_row F r) c)"
  using assms unfolding win_probability_row_def cell_at_def restrict_apply
  by (auto simp: req_win_def placeholder_row_def is_str_def fillna_def cell_at_def
        split: cell.splits option.splits)

lemma win_probability_not_mixed:
  assumes "\<And>c. \<not> mixed_column F c"
    and "''amount'' \<in> set (columns F) \<longrightarrow> (\<forall>r\<in>set (rows F). \<not> is_str (cell_at r ''amount''))"
  shows "\<not> mixed_column \<lparr>columns = cs, rows = map (win_probability_row F) (filter p (rows F))\<rparr> c"
proof (cases "c \<in> {''tenantId'', ''opportunityId'', ''target_win'', ''is_closed''}")
  case True
  then have "cell_at (win_probability_row F r) c = cell_at r c" for r
    by (simp add: cell_at_def win_probability_row_keep)
  with assms(1) [of c] show ?thesis
    by (auto simp: mixed_column_iff)
next
  case False
  with assms(2) have "\<forall>r\<in>set (rows F). \<not> is_str (cell_at (win_probability_row F r) c)"
    using win_probability_row_no_string by blast
  then show ?thesis
    by (auto simp: mixed_column_iff)
qed

lemma write_parquet_ok:
  assumes "dirname p \<noteq> [] \<longrightarrow> makedirs_ok fs (dirname p)"
    and "\<And>c. \<not> mixed_column t c"
    and "writable fs p"
  shows "write_parquet fs p t = Inr \<lparr>path = p, frame = t\<rparr>"
  using assms by (auto simp: write_parquet_def list_ex_iff)

lemma write_parquet_InrD:
  "write_parquet fs p t = Inr w \<Longrightarrow> w = \<lparr>path = p, frame = t\<rparr>"
  by (auto simp: write_parquet_def split: if_splits)

lemma write_parquet_mixed:
  assumes "dirname p \<noteq> [] \<longrightarrow> makedirs_ok fs (dirname p)"
    and "c \<in> set (columns t)" "mixed_column t c"
  shows "write_parquet fs p t = Inl ArrowError"
  using assms by (auto simp: write_parquet_def list_ex_iff)

lemma local_fs_writes:
  "dirname p \<noteq> [] \<longrightarrow> makedirs_ok local_fs (dirname p)" "writable local_fs p"
  by (simp_all add: local_fs_def)

lemma scenario_A_typed:
  "\<not> mixed_column scenario_A_evals c" "\<not> mixed_column scenario_A_outcomes c"
  "\<not> mixed_column scenario_A_evals_with_id c"
  by (simp_all add: mixed_column_def scenario_A_evals_def scenario_A_outcomes_def
        scenario_A_evals_with_id_def cell_at_def is_str_def is_num_def)

lemma scenario_C_typed:
  "\<not> mixed_column scenario_C_evals c" "\<not> mixed_column scenario_C_outcomes c"
  by (simp_all add: mixed_column_def scenario_C_evals_def scenario_C_outcomes_def
        cell_at_def is_str_def is_num_def)

subsection \<open>The win-probability mode\<close>

lemma closed_with_target_derived:
  "closed_with_target (derived_row M r) =
     (column_get M ''outcome'' r = Str ''won'' \<or> column_get M ''outcome'' r = Str ''lost'')"
  by (auto simp: closed_with_target_def derived_row_def cell_at_upd target_win_of_def notna_def)

lemma scenario_C_rows_written:
  "rows_written (main local_fs (plain_args Win_probability) (Some scenario_C_evals) (Some scenario_C_outcomes)) = 5"
proof -
  let ?M = "join_tables scenario_C_evals scenario_C_outcomes"
  have oc: "''outcome'' \<in> set (columns ?M)"
    by (simp add: columns_join_tables scenario_C_evals_def scenario_C_outcomes_def join_keys_def
          right_label_def endswith_def)
  have rs: "''riskScore'' \<notin> set (columns ?M)"
    by (simp add: columns_join_tables scenario_C_evals_def scenario_C_outcomes_def join_keys_def
          right_label_def endswith_def)
  then have "\<forall>r\<in>set (rows ?M). \<not> is_str (column_get ?M ''riskScore'' r)"
    by (simp add: column_get_def is_str_def)
  with oc obtain T where d: "derive_targets ?M = Inr T"
    using derive_targets_ok [of ?M] by blast
  have m: "model (plain_args Win_probability) = Win_probability"
    and tid: "tenant_id (plain_args Win_probability) = None"
    by (simp_all add: plain_args_def)
  have F: "tenant_filter None T = T"
    by (simp add: tenant_filter_def)
  have "filter closed_with_target (rows T)
      = map (derived_row ?M) (filter (\<lambda>r. cell_at r ''outcome'' = Str ''won'' \<or> cell_at r ''outcome'' = Str ''lost'') (rows ?M))"
    by (simp add: derive_targets_InrD(1) [OF d] filter_map comp_def closed_with_target_derived
          column_get_def oc)
  then have "length (filter closed_with_target (rows T))
      = length (filter (\<lambda>v. v = Str ''won'' \<or> v = Str ''lost'') (map (\<lambda>r. cell_at r ''outcome'') (rows ?M)))"
    by (simp add: filter_map comp_def)
  then have len: "length (filter closed_with_target (rows T)) = 5"
    unfolding scenario_C_outcome_cells by simp
  then have ne: "filter closed_with_target (rows T) \<noteq> []" by auto
  have typed: "\<not> mixed_column (tenant_filter None T) c" for c
    using scenario_C_joined d scenario_C_typed by (rule targets_not_mixed)
  have "''amount'' \<notin> set (columns T)"
    by (simp add: derive_targets_InrD(2) [OF d] columns_join_tables scenario_C_evals_def
          scenario_C_outcomes_def join_keys_def right_label_def endswith_def)
  then have am: "''amount'' \<in> set (columns T) \<longrightarrow> (\<forall>r\<in>set (rows T). \<not> is_str (cell_at r ''amount''))"
    by simp
  have w: "write_parquet local_fs p
             \<lparr>columns = [''tenantId'', ''opportunityId''] @ req_win,
              rows = map (win_probability_row T) (filter closed_with_target (rows T))\<rparr>
           = Inr \<lparr>path = p,
                  frame = \<lparr>columns = [''tenantId'', ''opportunityId''] @ req_win,
                            rows = map (win_probability_row T) (filter closed_with_target (rows T))\<rparr>\<rparr>" for p
    using local_fs_writes(1) win_probability_not_mixed [OF typed [unfolded F] am] local_fs_writes(2)
    by (rule write_parquet_ok)
  show ?thesis
    unfolding main_win_probability [OF scenario_C_joined d m] tid F w
    using ne len by (simp add: rows_written_def)
qed

text \<open>
  C6. In \<^verbatim>\<open>win_probability\<close> mode the output holds exactly the rows with
  \<^verbatim>\<open>is_closed == 1\<close> and a \<^verbatim>\<open>target_win\<close> that is not null, in order, and the
  projection fails with NoTrainableRows exactly when there is no such row. In Scenario C,
  seven evaluation rows of which five are closed with a defined \<^verbatim>\<open>target_win\<close> and two
  are not closed, the run writes exactly five rows.
\<close>

theorem win_probability_keeps_closed_rows:
  "(''is_closed'' \<in> set (columns t) \<longrightarrow> ''target_win'' \<in> set (columns t) \<longrightarrow>
    ''tenantId'' \<in> set (columns t) \<longrightarrow> ''opportunityId'' \<in> set (columns t) \<longrightarrow>
      ((project Win_probability t = Inl (NoTrainableRows ''target_win''))
         = (filter (\<lambda>r. cell_at r ''is_closed'' = Num 1 \<and> cell_at r ''target_win'' \<noteq> Null) (rows t) = []))
      \<and> (filter (\<lambda>r. cell_at r ''is_closed'' = Num 1 \<and> cell_at r ''target_win'' \<noteq> Null) (rows t) \<noteq> [] \<longrightarrow>
           (\<exists>out. project Win_probability t = Inr out
              \<and> map (\<lambda>r. (r ''tenantId'', r ''opportunityId'', r ''target_win'', r ''is_closed'')) (rows out)
                = map (\<lambda>r. (r ''tenantId'', r ''opportunityId'', r ''target_win'', r ''is_closed''))
                    (filter (\<lambda>r. cell_at r ''is_closed'' = Num 1 \<and> cell_at r ''target_win'' \<noteq> Null) (rows t)))))
   \<and> rows_written (main local_fs (plain_args Win_probability) (Some scenario_C_evals)
         (Some scenario_C_outcomes)) = 5"
proof -
  have part1:
    "''is_closed'' \<in> set (columns t) \<longrightarrow> ''target_win'' \<in> set (columns t) \<longrightarrow>
    ''tenantId'' \<in> set (columns t) \<longrightarrow> ''opportunityId'' \<in> set (columns t) \<longrightarrow>
      ((project Win_probability t = Inl (NoTrainableRows ''target_win''))
         = (filter (\<lambda>r. cell_at r ''is_closed'' = Num 1 \<and> cell_at r ''target_win'' \<noteq> Null) (rows t) = []))
      \<and> (filter (\<lambda>r. cell_at r ''is_closed'' = Num 1 \<and> cell_at r ''target_win'' \<noteq> Null) (rows t) \<noteq> [] \<longrightarrow>
           (\<exists>out. project Win_probability t = Inr out
              \<and> map (\<lambda>r. (r ''tenantId'', r ''opportunityId'', r ''target_win'', r ''is_closed'')) (rows out)
                = map (\<lambda>r. (r ''tenantId'', r ''opportunityId'', r ''target_win'', r ''is_closed''))
                    (filter (\<lambda>r. cell_at r ''is_closed'' = Num 1 \<and> cell_at r ''target_win'' \<noteq> Null) (rows t))))"
  proof (intro impI)
    assume c: "''is_closed'' \<in> set (columns t)" "''target_win'' \<in> set (columns t)"
      "''tenantId'' \<in> set (columns t)" "''opportunityId'' \<in> set (columns t)"
    have keep: "(win_probability_row t r ''tenantId'', win_probability_row t r ''opportunityId'',
                 win_probability_row t r ''target_win'', win_probability_row t r ''is_closed'')
                = (r ''tenantId'', r ''opportunityId'', r ''target_win'', r ''is_closed'')" for r
      by (simp add: win_probability_row_keep)
    have f: "filter (\<lambda>r. cell_at r ''is_closed'' = Num 1 \<and> cell_at r ''target_win'' \<noteq> Null) (rows t)
             = filter closed_with_target (rows t)"
      by (simp add: closed_with_target_def [abs_def])
    show "((project Win_probability t = Inl (NoTrainableRows ''target_win''))
         = (filter (\<lambda>r. cell_at r ''is_closed'' = Num 1 \<and> cell_at r ''target_win'' \<noteq> Null) (rows t) = []))
      \<and> (filter (\<lambda>r. cell_at r ''is_closed'' = Num 1 \<and> cell_at r ''target_win'' \<noteq> Null) (rows t) \<noteq> [] \<longrightarrow>
           (\<exists>out. project Win_probability t = Inr out
              \<and> map (\<lambda>r. (r ''tenantId'', r ''opportunityId'', r ''target_win'', r ''is_closed'')) (rows out)
                = map (\<lambda>r. (r ''tenantId'', r ''opportunityId'', r ''target_win'', r ''is_closed''))
                    (filter (\<lambda>r. cell_at r ''is_closed'' = Num 1 \<and> cell_at r ''target_win'' \<noteq> Null) (rows t))))"
      unfolding f
      by (simp add: project_win_probability_ok [OF c] comp_def keep)
  qed
  from part1 scenario_C_rows_written show ?thesis by (rule conjI)
qed

theorem win_probability_keeps_closed_rows_witness:
  "\<exists>out. project Win_probability closed_example = Inr out
      \<and> map (\<lambda>r. (r ''tenantId'', r ''opportunityId'', r ''target_win'', r ''is_closed'')) (rows out)
          = [(Some (Str ''t1''), Some (Num 1), Some (Num 1), Some (Num 1))]"
proof -
  have c: "''is_closed'' \<in> set (columns closed_example)" "''target_win'' \<in> set (columns closed_example)"
    "''tenantId'' \<in> set (columns closed_example)" "''opportunityId'' \<in> set (columns closed_example)"
    by (simp_all add: closed_example_def)
  have f: "filter (\<lambda>r. cell_at r ''is_closed'' = Num 1 \<and> cell_at r ''target_win'' \<noteq> Null) (rows closed_example)
      = [[''tenantId'' \<mapsto> Str ''t1'', ''opportunityId'' \<mapsto> Num 1, ''probability'' \<mapsto> Num 0.9,
               ''target_risk'' \<mapsto> Num 0, ''target_win'' \<mapsto> Num 1, ''is_closed'' \<mapsto> Num 1]]"
    by (simp add: closed_example_def cell_at_def)
  from win_probability_keeps_closed_rows [of closed_example] c
  have "filter (\<lambda>r. cell_at r ''is_closed'' = Num 1 \<and> cell_at r ''target_win'' \<noteq> Null) (rows closed_example) \<noteq> [] \<longrightarrow>
           (\<exists>out. project Win_probability closed_example = Inr out
              \<and> map (\<lambda>r. (r ''tenantId'', r ''opportunityId'', r ''target_win'', r ''is_closed'')) (rows out)
                = map (\<lambda>r. (r ''tenantId'', r ''opportunityId'', r ''target_win'', r ''is_closed''))
                    (filter (\<lambda>r. cell_at r ''is_closed'' = Num 1 \<and> cell_at r ''target_win'' \<noteq> Null) (rows closed_example)))"
    by blast
  then show ?thesis
    unfolding f by simp
qed

lemma project_risk_scoring_InrD:
  assumes "project_risk_scoring t = Inr out"
  shows "\<exists>m. rows out = map (risk_scoring_row m) (rows m)"
    and "columns out = [''tenantId'', ''opportunityId''] @ req_risk @ [''risk_score_latest'']"
proof -
  from assms obtain m where
    s: "select_columns ([''tenantId'', ''opportunityId''] @ req_risk @ [''risk_score_latest''])
          (risk_score_latest (fill_amount (put_placeholders m))) = Inr out"
    by (auto simp: project_risk_scoring_def split: sum.splits if_splits)
  from select_columns_InrD [OF s]
  have out: "out = \<lparr>columns = [''tenantId'', ''opportunityId''] @ req_risk @ [''risk_score_latest''],
                    rows = map (risk_scoring_row m) (rows m)\<rparr>"
    unfolding risk_scoring_rows by (simp add: comp_def risk_scoring_row_def)
  show "\<exists>m. rows out = map (risk_scoring_row m) (rows m)"
    by (subst out) auto
  show "columns out = [''tenantId'', ''opportunityId''] @ req_risk @ [''risk_score_latest'']"
    by (subst out) simp
qed

lemma project_win_probability_InrD:
  assumes "project_win_probability t = Inr out"
  shows "\<exists>m. rows out = map (win_probability_row m) (rows m)"
    and "columns out = [''tenantId'', ''opportunityId''] @ req_win"
proof -
  from assms obtain m where
    s: "select_columns ([''tenantId'', ''opportunityId''] @ req_win)
          (fill_amount (put_placeholders m)) = Inr out"
    by (auto simp: project_win_probability_def split: sum.splits if_splits)
  from select_columns_InrD [OF s]
  have out: "out = \<lparr>columns = [''tenantId'', ''opportunityId''] @ req_win,
                    rows = map (win_probability_row m) (rows m)\<rparr>"
    unfolding win_probability_rows by (simp add: comp_def win_probability_row_def)
  show "\<exists>m. rows out = map (win_probability_row m) (rows m)"
    by (subst out) auto
  show "columns out = [''tenantId'', ''opportunityId''] @ req_win"
    by (subst out) simp
qed

text \<open>
  C10. In the modes \<^verbatim>\<open>risk_scoring\<close> and \<^verbatim>\<open>win_probability\<close> each of the seven
  placeholder columns is a column of the output and holds its constant in every output
  row (probability 0.5, days_to_close 0, stage_encoded 0, industry_encoded 0,
  days_since_last_activity 999, activity_count_30d 0, stakeholder_count 0), whatever the
  input frames carried under those labels.
\<close>

theorem placeholders_overwrite:
  assumes "m = Risk_scoring \<or> m = Win_probability" and "project m t = Inr out"
  shows "(\<forall>r\<in>set (rows out).
            r ''probability'' = Some (Num 0.5)
          \<and> r ''days_to_close'' = Some (Num 0)
          \<and> r ''stage_encoded'' = Some (Num 0)
          \<and> r ''industry_encoded'' = Some (Num 0)
          \<and> r ''days_since_last_activity'' = Some (Num 999)
          \<and> r ''activity_count_30d'' = Some (Num 0)
          \<and> r ''stakeholder_count'' = Some (Num 0))
       \<and> set [''probability'', ''days_to_close'', ''stage_encoded'', ''industry_encoded'',
               ''days_since_last_activity'', ''activity_count_30d'', ''stakeholder_count'']
           \<subseteq> set (columns out)"
proof -
  have p: "(''probability'', Num 0.5) \<in> set PLACEHOLDER" "(''days_to_close'', Num 0) \<in> set PLACEHOLDER"
    "(''stage_encoded'', Num 0) \<in> set PLACEHOLDER" "(''industry_encoded'', Num 0) \<in> set PLACEHOLDER"
    "(''days_since_last_activity'', Num 999) \<in> set PLACEHOLDER"
    "(''activity_count_30d'', Num 0) \<in> set PLACEHOLDER" "(''stakeholder_count'', Num 0) \<in> set PLACEHOLDER"
    by (simp_all add: PLACEHOLDER_def)
  from assms(1) show ?thesis
  proof
    assume m: "m = Risk_scoring"
    with assms(2) have pr: "project_risk_scoring t = Inr out" by simp
    from project_risk_scoring_InrD(1) [OF pr] obtain x
      where "rows out = map (risk_scoring_row x) (rows x)" by blast
    then have "\<forall>r\<in>set (rows out). \<forall>k v. (k, v) \<in> set PLACEHOLDER \<longrightarrow> r k = Some v"
      by (auto simp: risk_scoring_row_placeholder)
    with p have rws: "\<forall>r\<in>set (rows out).
            r ''probability'' = Some (Num 0.5)
          \<and> r ''days_to_close'' = Some (Num 0)
          \<and> r ''stage_encoded'' = Some (Num 0)
          \<and> r ''industry_encoded'' = Some (Num 0)
          \<and> r ''days_since_last_activity'' = Some (Num 999)
          \<and> r ''activity_count_30d'' = Some (Num 0)
          \<and> r ''stakeholder_count'' = Some (Num 0)"
      by blast
    have "set [''probability'', ''days_to_close'', ''stage_encoded'', ''industry_encoded'',
               ''days_since_last_activity'', ''activity_count_30d'', ''stakeholder_count'']
           \<subseteq> set (columns out)"
      by (simp add: project_risk_scoring_InrD(2) [OF pr] req_risk_def)
    with rws show ?thesis by (rule conjI)
  next
    assume m: "m = Win_probability"
    with assms(2) have pw: "project_win_probability t = Inr out" by simp
    from project_win_probability_InrD(1) [OF pw] obtain x
      where "rows out = map (win_probability_row x) (rows x)" by blast
    then have "\<forall>r\<in>set (rows out). \<forall>k v. (k, v) \<in> set PLACEHOLDER \<longrightarrow> r k = Some v"
      by (auto simp: win_probability_row_placeholder)
    with p have rws: "\<forall>r\<in>set (rows out).
            r ''probability'' = Some (Num 0.5)
          \<and> r ''days_to_close'' = Some (Num 0)
          \<and> r ''stage_encoded'' = Some (Num 0)
          \<and> r ''industry_encoded'' = Some (Num 0)
          \<and> r ''days_since_last_activity'' = Some (Num 999)
          \<and> r ''activity_count_30d'' = Some (Num 0)
          \<and> r ''stakeholder_count'' = Some (Num 0)"
      by blast
    have "set [''probability'', ''days_to_close'', ''stage_encoded'', ''industry_encoded'',
               ''days_since_last_activity'', ''activity_count_30d'', ''stakeholder_count'']
           \<subseteq> set (columns out)"
      by (simp add: project_win_probability_InrD(2) [OF pw] req_win_def)
    with rws show ?thesis by (rule conjI)
  qed
qed

theorem placeholders_overwrite_witness:
  "cell_at (rows closed_example ! 0) ''probability'' = Num 0.9
   \<and> (\<exists>out. project Win_probability closed_example = Inr out
         \<and> length (rows out) = 1
         \<and> (rows out ! 0) ''probability'' = Some (Num 0.5)
         \<and> (rows out ! 0) ''days_since_last_activity'' = Some (Num 999))"
proof -
  have c: "''is_closed'' \<in> set (columns closed_example)" "''target_win'' \<in> set (columns closed_example)"
    "''tenantId'' \<in> set (columns closed_example)" "''opportunityId'' \<in> set (columns closed_example)"
    by (simp_all add: closed_example_def)
  have f: "length (filter closed_with_target (rows closed_example)) = 1"
    by (simp add: closed_example_def cell_at_def closed_with_target_def)
  then have "filter closed_with_target (rows closed_example) \<noteq> []" by auto
  with project_win_probability_ok [OF c] f obtain out where
    o: "project Win_probability closed_example = Inr out" and l: "length (rows out) = 1"
    by auto
  from l have "rows out ! 0 \<in> set (rows out)" by simp
  with placeholders_overwrite [OF _ o] have
    "(rows out ! 0) ''probability'' = Some (Num 0.5)"
    "(rows out ! 0) ''days_since_last_activity'' = Some (Num 999)"
    by blast+
  moreover have "cell_at (rows closed_example ! 0) ''probability'' = Num 0.9"
    by (simp add: closed_example_def cell_at_def)
  ultimately show ?thesis using o l by blast
qed

section \<open>Properties of the partitioned writer\<close>

lemma endswith_iff: "endswith s suf = (\<exists>xs. s = xs @ suf)"
proof
  assume "endswith s suf"
  then have "s = take (length s - length suf) s @ suf"
    by (metis append_take_drop_id endswith_def)
  then show "\<exists>xs. s = xs @ suf" ..
next
  assume "\<exists>xs. s = xs @ suf"
  then show "endswith s suf" by (auto simp: endswith_def)
qed

lemma rstrip_slash_parquet:
  assumes "endswith p ''.parquet''"
  shows "rstrip_slash p = p"
proof -
  from assms obtain xs where "p = xs @ ''.parquet''"
    by (auto simp: endswith_iff)
  then show ?thesis by (simp add: rstrip_slash_def)
qed

lemma basename_takeWhile: "basename p = rev (takeWhile (\<lambda>c. c \<noteq> CHR ''/'') (rev p))"
proof -
  let ?k = "length (takeWhile (\<lambda>c. c \<noteq> CHR ''/'') (rev p))"
  have "takeWhile (\<lambda>c. c \<noteq> CHR ''/'') (rev p) = take ?k (rev p)"
    by (rule takeWhile_eq_take)
  also have "\<dots> = rev (drop (length p - ?k) p)"
    by (simp add: take_rev)
  finally have "rev (takeWhile (\<lambda>c. c \<noteq> CHR ''/'') (rev p)) = drop (length p - ?k) p"
    by (metis rev_rev_ident)
  then show ?thesis
    by (simp only: basename_def after_last_slash_def)
qed

lemma basename_no_slash: "CHR ''/'' \<notin> set (basename p)"
proof -
  have "\<forall>c\<in>set (takeWhile (\<lambda>c. c \<noteq> CHR ''/'') (rev p)). c \<noteq> CHR ''/''"
    using set_takeWhileD by fastforce
  then show ?thesis by (auto simp: basename_takeWhile)
qed

lemma basename_not_absolute: "take 1 (basename p) \<noteq> ''/''"
proof
  assume "take 1 (basename p) = ''/''"
  then have "CHR ''/'' \<in> set (take 1 (basename p))" by simp
  then have "CHR ''/'' \<in> set (basename p)" by (rule in_set_takeD)
  with basename_no_slash show False by blast
qed

lemma path_join_partition:
  "path_join d [''date='' @ l, basename p] =
     join_step (basename p) (if d = [] \<or> endswith d ''/'' then d @ ''date='' @ l else d @ ''/date='' @ l)"
  by (simp add: path_join_def join_step_def)

lemma join_step_basename:
  "x \<noteq> [] \<Longrightarrow> join_step (basename p) x = (if endswith x ''/'' then x @ basename p else x @ ''/'' @ basename p)"
  using basename_not_absolute [of p] by (simp add: join_step_def)

lemma endswith_append_keep: "endswith b s \<Longrightarrow> endswith (a @ b) s"
  by (auto simp: endswith_iff)

lemma endswith_slash_append:
  "b \<noteq> [] \<Longrightarrow> endswith (a @ b) ''/'' = endswith b ''/''"
proof -
  assume "b \<noteq> []"
  then obtain ys y where b: "b = ys @ [y]" by (metis rev_exhaust)
  show ?thesis by (simp add: b endswith_iff)
qed

lemma main_path:
  "main fs a ev oc = Inr w \<Longrightarrow> path w = resolve_path fs (partition_date a) (output_path a)"
  by (auto simp: main_def write_parquet_def split: option.splits sum.splits if_splits)

lemma scenario_D_path:
  "resolve_path local_fs (Some ''2024-05-01'') ''out/data.parquet'' = ''out/date=2024-05-01/data.parquet''"
  by (simp add: resolve_path_def local_fs_def dirname_def basename_def after_last_slash_def
        rstrip_slash_def endswith_def path_join_def join_step_def Let_def)

text \<open>
  C9. For an output path \<open>P\<close> that ends in \<^verbatim>\<open>.parquet\<close> and whose parent (the current
  directory when \<open>P\<close> has no directory part) is an existing directory, a partition label
  \<open>L\<close> that is supplied (the script takes an empty string as no label) makes the writer
  write to \<^verbatim>\<open>os.path.join(dirname(P), "date=" + L, basename(P))\<close> and not to \<open>P\<close>; when
  the directory part is not empty and neither it nor the label ends in a slash, that is the
  string \<^verbatim>\<open>dirname(P)/date=L/basename(P)\<close>. A run that writes, writes at the resolved
  path. The label 2024-05-01 with the path out/data.parquet resolves to
  out/date=2024-05-01/data.parquet.
\<close>

theorem partition_path:
  assumes "endswith P ''.parquet''"
    and "isdir fs (if dirname P = [] then ''.'' else dirname P)"
    and "L \<noteq> []"
  shows "resolve_path fs (Some L) P = path_join (dirname P) [''date='' @ L, basename P]
       \<and> (dirname P \<noteq> [] \<longrightarrow> \<not> endswith (dirname P) ''/'' \<longrightarrow> \<not> endswith L ''/'' \<longrightarrow>
            resolve_path fs (Some L) P = dirname P @ ''/date='' @ L @ ''/'' @ basename P)
       \<and> (partition_date a = Some L \<longrightarrow> output_path a = P \<longrightarrow> main fs a ev oc = Inr w \<longrightarrow>
            path w = path_join (dirname P) [''date='' @ L, basename P])
       \<and> resolve_path local_fs (Some ''2024-05-01'') ''out/data.parquet''
            = ''out/date=2024-05-01/data.parquet''"
proof -
  have r: "resolve_path fs (Some L) P = path_join (dirname P) [''date='' @ L, basename P]"
    using assms by (simp add: resolve_path_def rstrip_slash_parquet Let_def)
  have e: "resolve_path fs (Some L) P = dirname P @ ''/date='' @ L @ ''/'' @ basename P"
    if d: "dirname P \<noteq> []" "\<not> endswith (dirname P) ''/''" and l: "\<not> endswith L ''/''"
  proof -
    have n: "\<not> endswith (dirname P @ ''/date='' @ L) ''/''"
      using l assms(3) endswith_slash_append [of L "dirname P @ ''/date=''"] by simp
    have "path_join (dirname P) [''date='' @ L, basename P]
            = join_step (basename P) (dirname P @ ''/date='' @ L)"
      unfolding path_join_partition using d by simp
    also have "\<dots> = (dirname P @ ''/date='' @ L) @ ''/'' @ basename P"
      using join_step_basename [of "dirname P @ ''/date='' @ L" P] n by simp
    finally show ?thesis
      by (simp add: r)
  qed
  have m: "path w = path_join (dirname P) [''date='' @ L, basename P]"
    if "partition_date a = Some L" "output_path a = P" "main fs a ev oc = Inr w"
    using main_path [OF that(3)] that(1,2) r by simp
  from r e m scenario_D_path show ?thesis by blast
qed

theorem partition_path_witness:
  "resolve_path local_fs (Some ''2024-05-01'') ''out/data.parquet''
     = path_join (dirname ''out/data.parquet'') [''date=2024-05-01'', basename ''out/data.parquet'']
   \<and> dirname ''out/data.parquet'' = ''out'' \<and> basename ''out/data.parquet'' = ''data.parquet''"
proof -
  have d: "dirname ''out/data.parquet'' = ''out''"
    by (simp add: dirname_def after_last_slash_def rstrip_slash_def)
  have b: "basename ''out/data.parquet'' = ''data.parquet''"
    by (simp add: basename_def after_last_slash_def)
  have h1: "endswith ''out/data.parquet'' ''.parquet''"
    by (simp add: endswith_def)
  have h2: "isdir local_fs (if dirname ''out/data.parquet'' = [] then ''.'' else dirname ''out/data.parquet'')"
    by (simp add: d local_fs_def)
  have h3: "''2024-05-01'' \<noteq> []" by simp
  from partition_path [OF h1 h2 h3]
  have "resolve_path local_fs (Some ''2024-05-01'') ''out/data.parquet''
     = path_join (dirname ''out/data.parquet'') [''date='' @ ''2024-05-01'', basename ''out/data.parquet'']"
    by (rule conjunct1)
  with d b show ?thesis by simp
qed

section \<open>The schema of the outcome-joined mode\<close>

lemma keep_list_eq:
  "keep_list t = (if ''evaluationId'' \<in> set (columns t) then keep_with_evaluation_id else keep_base)"
  by (simp add: keep_list_def keep_base_def keep_with_evaluation_id_def list_insert_def list_index_def)

lemma fold_null_columns:
  "set (columns (fold (\<lambda>c m. if c \<notin> set (columns m) \<and> c \<noteq> ''evaluationId''
                                then assign_scalar c Null m else m) cs t))
     = set (columns t) \<union> {c \<in> set cs. c \<noteq> ''evaluationId''}"
  by (induction cs arbitrary: t) (auto simp: set_columns_assign_scalar)

lemma fold_null_rows:
  "rows (fold (\<lambda>c m. if c \<notin> set (columns m) \<and> c \<noteq> ''evaluationId''
                        then assign_scalar c Null m else m) cs t)
     = map (null_filled_row cs t) (rows t)"
proof (induction cs arbitrary: t)
  case Nil
  then show ?case by (simp add: null_filled_row_def)
next
  case (Cons c cs)
  show ?case
  proof (cases "c \<notin> set (columns t) \<and> c \<noteq> ''evaluationId''")
    case True
    have "null_filled_row cs (assign_scalar c Null t) (r(c \<mapsto> Null)) = null_filled_row (c # cs) t r" for r
      using True by (auto simp: null_filled_row_def set_columns_assign_scalar fun_eq_iff)
    with True show ?thesis
      by (simp add: Cons.IH rows_assign_scalar comp_def)
  next
    case False
    have "null_filled_row cs t r = null_filled_row (c # cs) t r" for r
      using False by (auto simp: null_filled_row_def fun_eq_iff)
    with False show ?thesis
      by (auto simp: Cons.IH)
  qed
qed

lemma project_outcome_joined_ok:
  "project_outcome_joined t =
     Inr \<lparr>columns = keep_list t,
          rows = map (\<lambda>r. null_filled_row (keep_list t) t r |` set (keep_list t)) (rows t)\<rparr>"
proof -
  let ?g = "\<lambda>c m. if c \<notin> set (columns m) \<and> c \<noteq> ''evaluationId'' then assign_scalar c Null m else m"
  let ?m = "fold ?g (keep_list t) t"
  have ev: "''evaluationId'' \<in> set (keep_list t) \<Longrightarrow> ''evaluationId'' \<in> set (columns t)"
    by (simp add: keep_list_eq keep_base_def split: if_splits)
  have all_in: "\<forall>c\<in>set (keep_list t). c \<in> set (columns ?m)"
    using ev by (auto simp: fold_null_columns)
  then have f: "filter (\<lambda>c. c \<in> set (columns ?m)) (keep_list t) = keep_list t"
    by (simp add: filter_id_conv)
  from all_in have sub: "set (keep_list t) \<subseteq> set (columns ?m)" by blast
  show ?thesis
    unfolding project_outcome_joined_def Let_def f select_columns_ok [OF sub] fold_null_rows
    by (simp add: comp_def)
qed

lemma keep_list_targets:
  assumes "derive_targets M = Inr T"
  shows "keep_list (tenant_filter tid T) =
           (if ''evaluationId'' \<in> set (columns M) then keep_with_evaluation_id else keep_base)"
  by (simp add: keep_list_eq columns_tenant_filter derive_targets_InrD(2) [OF assms])

lemma main_outcome_joined:
  assumes "joiner E Oc = Inr M" "derive_targets M = Inr T" "model a = Outcome_joined"
  shows "main fs a (Some E) (Some Oc) =
     write_parquet fs (resolve_path fs (partition_date a) (output_path a))
       \<lparr>columns = (if ''evaluationId'' \<in> set (columns M) then keep_with_evaluation_id else keep_base),
        rows = map (\<lambda>r. null_filled_row (keep_list (tenant_filter (tenant_id a) T))
                          (tenant_filter (tenant_id a) T) r
                        |` set (keep_list (tenant_filter (tenant_id a) T)))
                 (rows (tenant_filter (tenant_id a) T))\<rparr>"
  by (simp add: main_after_targets [OF assms(1,2)] assms(3) project_outcome_joined_ok
        keep_list_targets [OF assms(2)])

lemma outcome_joined_not_mixed:
  assumes "\<And>c. \<not> mixed_column F c"
  shows "\<not> mixed_column \<lparr>columns = cs, rows = map (\<lambda>r. null_filled_row K F r |` set K) (rows F)\<rparr> c"
proof
  assume "mixed_column \<lparr>columns = cs, rows = map (\<lambda>r. null_filled_row K F r |` set K) (rows F)\<rparr> c"
  then have "mixed_column F c"
  proof (rule mixed_column_from)
    fix r assume "r \<in> set (rows \<lparr>columns = cs, rows = map (\<lambda>r. null_filled_row K F r |` set K) (rows F)\<rparr>)"
    then obtain r0 where r0: "r0 \<in> set (rows F)" and r: "r = null_filled_row K F r0 |` set K"
      by auto
    have "cell_at r c = Null \<or> cell_at r c = cell_at r0 c"
      by (simp add: r cell_at_def restrict_apply null_filled_row_def)
    with r0 show "cell_at r c = Null
           \<or> (\<exists>q\<in>set (rows F). is_str (cell_at r c) = is_str (cell_at q c)
                                \<and> is_num (cell_at r c) = is_num (cell_at q c))"
      by auto
  qed
  with assms show False by simp
qed

lemma main_outcome_joined_typed:
  assumes "joiner E Oc = Inr M" "derive_targets M = Inr T" "model a = Outcome_joined"
    and "\<And>c. \<not> mixed_column E c" "\<And>c. \<not> mixed_column Oc c"
    and "dirname (resolve_path fs (partition_date a) (output_path a)) \<noteq> [] \<longrightarrow>
           makedirs_ok fs (dirname (resolve_path fs (partition_date a) (output_path a)))"
    and "writable fs (resolve_path fs (partition_date a) (output_path a))"
  shows "main fs a (Some E) (Some Oc) =
     Inr \<lparr>path = resolve_path fs (partition_date a) (output_path a),
          frame =
            \<lparr>columns = (if ''evaluationId'' \<in> set (columns M) then keep_with_evaluation_id else keep_base),
             rows = map (\<lambda>r. null_filled_row (keep_list (tenant_filter (tenant_id a) T))
                               (tenant_filter (tenant_id a) T) r
                             |` set (keep_list (tenant_filter (tenant_id a) T)))
                      (rows (tenant_filter (tenant_id a) T))\<rparr>\<rparr>"
  unfolding main_outcome_joined [OF assms(1,2,3)]
proof (rule write_parquet_ok [OF assms(6) _ assms(7)])
  fix c
  have "\<not> mixed_column (tenant_filter (tenant_id a) T) c'" for c'
    using assms(1,2,4,5) by (rule targets_not_mixed)
  then show "\<not> mixed_column
         \<lparr>columns = (if ''evaluationId'' \<in> set (columns M) then keep_with_evaluation_id else keep_base),
          rows = map (\<lambda>r. null_filled_row (keep_list (tenant_filter (tenant_id a) T))
                            (tenant_filter (tenant_id a) T) r
                          |` set (keep_list (tenant_filter (tenant_id a) T)))
                   (rows (tenant_filter (tenant_id a) T))\<rparr> c"
    by (rule outcome_joined_not_mixed)
qed

lemma scenario_A_with_id_joined:
  "joiner scenario_A_evals_with_id scenario_A_outcomes
     = Inr (join_tables scenario_A_evals_with_id scenario_A_outcomes_keyed)"
proof (rule joiner_ok)
  show "normalize_keys scenario_A_evals_with_id scenario_A_outcomes = Inr scenario_A_outcomes_keyed"
    by (simp add: normalize_keys_def df_empty_def first_missing_def scenario_A_evals_with_id_def scenario_A_outcomes_def scenario_A_outcomes_keyed_def cell_at_def)
  show "\<not> incompatible_keys join_keys scenario_A_evals_with_id scenario_A_outcomes_keyed"
    by (simp add: incompatible_keys_def string_column_def join_keys_def cell_at_def is_str_def scenario_A_evals_with_id_def scenario_A_outcomes_def scenario_A_outcomes_keyed_def assign_scalar_def assign_rowwise_def)
  show "distinct (columns scenario_A_evals_with_id @ map (right_label (columns scenario_A_evals_with_id))
          (filter (\<lambda>c. c \<notin> set join_keys) (columns scenario_A_outcomes_keyed)))"
    by (simp add: right_label_def join_keys_def scenario_A_evals_with_id_def scenario_A_outcomes_def scenario_A_outcomes_keyed_def assign_scalar_def assign_rowwise_def)
qed

lemma scenario_A_columns:
  "columns (join_tables scenario_A_evals scenario_A_outcomes_keyed)
     = [''tenantId'', ''opportunityId'', ''riskScore'', ''outcome'']"
  by (simp add: columns_join_tables scenario_A_evals_def scenario_A_outcomes_keyed_def
        scenario_A_outcomes_def assign_scalar_def assign_rowwise_def join_keys_def right_label_def
        endswith_def)

lemma scenario_A_with_id_columns:
  "columns (join_tables scenario_A_evals_with_id scenario_A_outcomes_keyed)
     = [''tenantId'', ''opportunityId'', ''riskScore'', ''evaluationId'', ''outcome'']"
  by (simp add: columns_join_tables scenario_A_evals_with_id_def scenario_A_outcomes_keyed_def
        scenario_A_outcomes_def assign_scalar_def assign_rowwise_def join_keys_def right_label_def
        endswith_def)

lemma numeric_risk_from_left:
  assumes "\<forall>r\<in>set (rows E). \<not> is_str (cell_at r ''riskScore'')" "''riskScore'' \<in> set (columns E)"
  shows "\<forall>r\<in>set (rows (join_tables E O')). \<not> is_str (column_get (join_tables E O') ''riskScore'' r)"
proof
  fix r assume "r \<in> set (rows (join_tables E O'))"
  then obtain i where i: "i < length (rows E)" and r: "r = rows (join_tables E O') ! i"
    by (metis in_set_conv_nth length_join_tables)
  have "\<not> endswith ''riskScore'' ''_out''" by (simp add: endswith_def)
  from join_tables_left_cell [OF i assms(2) this, of O']
  have "cell_at r ''riskScore'' = cell_at (rows E ! i) ''riskScore''"
    by (simp add: r cell_at_def)
  moreover from assms(1) i have "\<not> is_str (cell_at (rows E ! i) ''riskScore'')" by simp
  ultimately show "\<not> is_str (column_get (join_tables E O') ''riskScore'' r)"
    by (simp add: column_get_def is_str_def)
qed

lemma scenario_A_targets:
  "\<exists>T. derive_targets (join_tables scenario_A_evals scenario_A_outcomes_keyed) = Inr T"
proof -
  have "\<forall>r\<in>set (rows scenario_A_evals). \<not> is_str (cell_at r ''riskScore'')"
    by (simp add: scenario_A_evals_def cell_at_def is_str_def)
  moreover have "''riskScore'' \<in> set (columns scenario_A_evals)"
    by (simp add: scenario_A_evals_def)
  ultimately have "\<forall>r\<in>set (rows (join_tables scenario_A_evals scenario_A_outcomes_keyed)).
      \<not> is_str (column_get (join_tables scenario_A_evals scenario_A_outcomes_keyed) ''riskScore'' r)"
    by (rule numeric_risk_from_left)
  moreover have "''outcome'' \<in> set (columns (join_tables scenario_A_evals scenario_A_outcomes_keyed))"
    by (simp add: scenario_A_columns)
  ultimately show ?thesis
    using derive_targets_ok [of "join_tables scenario_A_evals scenario_A_outcomes_keyed"] by blast
qed

lemma scenario_A_with_id_targets:
  "\<exists>T. derive_targets (join_tables scenario_A_evals_with_id scenario_A_outcomes_keyed) = Inr T"
proof -
  have "\<forall>r\<in>set (rows scenario_A_evals_with_id). \<not> is_str (cell_at r ''riskScore'')"
    by (simp add: scenario_A_evals_with_id_def cell_at_def is_str_def)
  moreover have "''riskScore'' \<in> set (columns scenario_A_evals_with_id)"
    by (simp add: scenario_A_evals_with_id_def)
  ultimately have "\<forall>r\<in>set (rows (join_tables scenario_A_evals_with_id scenario_A_outcomes_keyed)).
      \<not> is_str (column_get (join_tables scenario_A_evals_with_id scenario_A_outcomes_keyed) ''riskScore'' r)"
    by (rule numeric_risk_from_left)
  moreover have "''outcome'' \<in> set (columns (join_tables scenario_A_evals_with_id scenario_A_outcomes_keyed))"
    by (simp add: scenario_A_with_id_columns)
  ultimately show ?thesis
    using derive_targets_ok [of "join_tables scenario_A_evals_with_id scenario_A_outcomes_keyed"] by blast
qed

text \<open>
  C8, as stated, fails: two runs in \<^verbatim>\<open>outcome_joined\<close> mode whose evaluation frames
  differ only in carrying an \<^verbatim>\<open>evaluationId\<close> column write twelve and thirteen columns.
\<close>

theorem schema_depends_on_evaluation_id:
  "written_columns (main local_fs (plain_args Outcome_joined) (Some scenario_A_evals)
       (Some scenario_A_outcomes))
     = [''tenantId'', ''opportunityId'', ''riskScore'', ''categoryScores'', ''timestamp'',
        ''outcome'', ''amount'', ''closeDate'', ''recordedAt'', ''target_risk'', ''target_win'',
        ''is_closed'']
   \<and> written_columns (main local_fs (plain_args Outcome_joined) (Some scenario_A_evals_with_id)
       (Some scenario_A_outcomes))
     = [''tenantId'', ''opportunityId'', ''riskScore'', ''categoryScores'', ''timestamp'',
        ''evaluationId'', ''outcome'', ''amount'', ''closeDate'', ''recordedAt'', ''target_risk'',
        ''target_win'', ''is_closed'']"
proof -
  have m: "model (plain_args Outcome_joined) = Outcome_joined"
    by (simp add: plain_args_def)
  from scenario_A_targets obtain T
    where T: "derive_targets (join_tables scenario_A_evals scenario_A_outcomes_keyed) = Inr T" ..
  from scenario_A_with_id_targets obtain T'
    where T': "derive_targets (join_tables scenario_A_evals_with_id scenario_A_outcomes_keyed) = Inr T'" ..
  show ?thesis
    unfolding main_outcome_joined_typed [OF scenario_A_joined T m scenario_A_typed(1,2) local_fs_writes]
      main_outcome_joined_typed [OF scenario_A_with_id_joined T' m scenario_A_typed(3,2) local_fs_writes]
    by (simp add: written_columns_def scenario_A_columns
          scenario_A_with_id_columns keep_base_def keep_with_evaluation_id_def)
qed

text \<open>
  C8, amended. In \<^verbatim>\<open>outcome_joined\<close> mode, on a merged frame whose targets were derived,
  the projection succeeds and keeps every row it is given; each of the columns
  \<^verbatim>\<open>riskScore\<close>, \<^verbatim>\<open>categoryScores\<close>, \<^verbatim>\<open>timestamp\<close>, \<^verbatim>\<open>outcome\<close>, \<^verbatim>\<open>amount\<close>,
  \<^verbatim>\<open>closeDate\<close>, \<^verbatim>\<open>recordedAt\<close> that the merged frame lacks is created with null in
  every row. The column \<^verbatim>\<open>evaluationId\<close> is never created: the output columns are the
  twelve fixed ones, in their fixed order, with \<^verbatim>\<open>evaluationId\<close> right after
  \<^verbatim>\<open>timestamp\<close> exactly when the merged frame has it; a run that writes, writes a frame
  with these columns.
\<close>

theorem outcome_joined_schema:
  assumes "derive_targets M = Inr T"
  shows "(\<exists>out. project Outcome_joined (tenant_filter tid T) = Inr out
           \<and> columns out =
               (if ''evaluationId'' \<in> set (columns M)
                then [''tenantId'', ''opportunityId'', ''riskScore'', ''categoryScores'', ''timestamp'',
                      ''evaluationId'', ''outcome'', ''amount'', ''closeDate'', ''recordedAt'',
                      ''target_risk'', ''target_win'', ''is_closed'']
                else [''tenantId'', ''opportunityId'', ''riskScore'', ''categoryScores'', ''timestamp'',
                      ''outcome'', ''amount'', ''closeDate'', ''recordedAt'',
                      ''target_risk'', ''target_win'', ''is_closed''])
           \<and> length (rows out) = length (rows (tenant_filter tid T))
           \<and> (\<forall>c\<in>set [''riskScore'', ''categoryScores'', ''timestamp'', ''outcome'', ''amount'',
                         ''closeDate'', ''recordedAt''].
                 c \<notin> set (columns M) \<longrightarrow> (\<forall>r\<in>set (rows out). r c = Some Null)))
       \<and> (joiner E Oc = Inr M \<longrightarrow> model a = Outcome_joined \<longrightarrow> main fs a (Some E) (Some Oc) = Inr w \<longrightarrow>
            columns (frame w) =
               (if ''evaluationId'' \<in> set (columns M)
                then [''tenantId'', ''opportunityId'', ''riskScore'', ''categoryScores'', ''timestamp'',
                      ''evaluationId'', ''outcome'', ''amount'', ''closeDate'', ''recordedAt'',
                      ''target_risk'', ''target_win'', ''is_closed'']
                else [''tenantId'', ''opportunityId'', ''riskScore'', ''categoryScores'', ''timestamp'',
                      ''outcome'', ''amount'', ''closeDate'', ''recordedAt'',
                      ''target_risk'', ''target_win'', ''is_closed'']))"
proof -
  let ?t = "tenant_filter tid T"
  let ?K = "keep_list ?t"
  let ?out = "\<lparr>columns = ?K, rows = map (\<lambda>r. null_filled_row ?K ?t r |` set ?K) (rows ?t)\<rparr>"
  let ?cols = "if ''evaluationId'' \<in> set (columns M)
                then [''tenantId'', ''opportunityId'', ''riskScore'', ''categoryScores'', ''timestamp'',
                      ''evaluationId'', ''outcome'', ''amount'', ''closeDate'', ''recordedAt'',
                      ''target_risk'', ''target_win'', ''is_closed'']
                else [''tenantId'', ''opportunityId'', ''riskScore'', ''categoryScores'', ''timestamp'',
                      ''outcome'', ''amount'', ''closeDate'', ''recordedAt'',
                      ''target_risk'', ''target_win'', ''is_closed'']"
  have K: "?K = ?cols"
    by (simp add: keep_list_targets [OF assms] keep_base_def keep_with_evaluation_id_def)
  have p: "project Outcome_joined ?t = Inr ?out"
    by (simp add: project_outcome_joined_ok)
  have nulls: "r c = Some Null"
    if c: "c \<in> set [''riskScore'', ''categoryScores'', ''timestamp'', ''outcome'', ''amount'',
                         ''closeDate'', ''recordedAt'']"
      and m: "c \<notin> set (columns M)" and r: "r \<in> set (rows ?out)" for c r
  proof -
    from c have inK: "c \<in> set ?K" and ne: "c \<noteq> ''evaluationId''"
      unfolding K by auto
    from c m have "c \<notin> set (columns ?t)"
      by (auto simp: columns_tenant_filter derive_targets_InrD(2) [OF assms])
    with inK ne have "(null_filled_row ?K ?t r0 |` set ?K) c = Some Null" for r0
      by (simp add: restrict_apply null_filled_row_def)
    with r show ?thesis by auto
  qed
  have part1: "\<exists>out. project Outcome_joined ?t = Inr out \<and> columns out = ?cols
           \<and> length (rows out) = length (rows ?t)
           \<and> (\<forall>c\<in>set [''riskScore'', ''categoryScores'', ''timestamp'', ''outcome'', ''amount'',
                         ''closeDate'', ''recordedAt''].
                 c \<notin> set (columns M) \<longrightarrow> (\<forall>r\<in>set (rows out). r c = Some Null))"
  proof (intro exI conjI)
    show "project Outcome_joined ?t = Inr ?out" by (rule p)
    show "columns ?out = ?cols" using K by simp
    show "length (rows ?out) = length (rows ?t)" by simp
    show "\<forall>c\<in>set [''riskScore'', ''categoryScores'', ''timestamp'', ''outcome'', ''amount'',
                         ''closeDate'', ''recordedAt''].
                 c \<notin> set (columns M) \<longrightarrow> (\<forall>r\<in>set (rows ?out). r c = Some Null)"
      using nulls by blast
  qed
  have part2: "joiner E Oc = Inr M \<longrightarrow> model a = Outcome_joined \<longrightarrow> main fs a (Some E) (Some Oc) = Inr w \<longrightarrow>
            columns (frame w) = ?cols"
  proof (intro impI)
    assume j: "joiner E Oc = Inr M" and m: "model a = Outcome_joined"
      and w: "main fs a (Some E) (Some Oc) = Inr w"
    from w show "columns (frame w) = ?cols"
      unfolding main_outcome_joined [OF j assms m]
      by (auto simp: write_parquet_def keep_base_def keep_with_evaluation_id_def split: if_splits)
  qed
  from part1 part2 show ?thesis by (rule conjI)
qed

theorem outcome_joined_schema_witness:
  "\<exists>T out. derive_targets (join_tables scenario_A_evals scenario_A_outcomes_keyed) = Inr T
      \<and> project Outcome_joined (tenant_filter None T) = Inr out
      \<and> columns out = [''tenantId'', ''opportunityId'', ''riskScore'', ''categoryScores'', ''timestamp'',
                      ''outcome'', ''amount'', ''closeDate'', ''recordedAt'',
                      ''target_risk'', ''target_win'', ''is_closed'']
      \<and> length (rows out) = 3
      \<and> (rows out ! 0) ''amount'' = Some Null"
proof -
  let ?M = "join_tables scenario_A_evals scenario_A_outcomes_keyed"
  from scenario_A_targets obtain T where T: "derive_targets ?M = Inr T" ..
  have len: "length (rows (tenant_filter None T)) = 3"
    by (simp add: tenant_filter_def derive_targets_InrD(1) [OF T] length_join_tables scenario_A_evals_def)
  have ne: "''evaluationId'' \<notin> set (columns ?M)" and na: "''amount'' \<notin> set (columns ?M)"
    by (simp_all add: scenario_A_columns)
  from outcome_joined_schema [OF T, of None]
  have "\<exists>out. project Outcome_joined (tenant_filter None T) = Inr out
           \<and> columns out =
               (if ''evaluationId'' \<in> set (columns ?M)
                then [''tenantId'', ''opportunityId'', ''riskScore'', ''categoryScores'', ''timestamp'',
                      ''evaluationId'', ''outcome'', ''amount'', ''closeDate'', ''recordedAt'',
                      ''target_risk'', ''target_win'', ''is_closed'']
                else [''tenantId'', ''opportunityId'', ''riskScore'', ''categoryScores'', ''timestamp'',
                      ''outcome'', ''amount'', ''closeDate'', ''recordedAt'',
                      ''target_risk'', ''target_win'', ''is_closed''])
           \<and> length (rows out) = length (rows (tenant_filter None T))
           \<and> (\<forall>c\<in>set [''riskScore'', ''categoryScores'', ''timestamp'', ''outcome'', ''amount'',
                         ''closeDate'', ''recordedAt''].
                 c \<notin> set (columns ?M) \<longrightarrow> (\<forall>r\<in>set (rows out). r c = Some Null))"
    by (rule conjunct1)
  then obtain out where
    o: "project Outcome_joined (tenant_filter None T) = Inr out"
    and c0: "columns out =
               (if ''evaluationId'' \<in> set (columns ?M)
                then [''tenantId'', ''opportunityId'', ''riskScore'', ''categoryScores'', ''timestamp'',
                      ''evaluationId'', ''outcome'', ''amount'', ''closeDate'', ''recordedAt'',
                      ''target_risk'', ''target_win'', ''is_closed'']
                else [''tenantId'', ''opportunityId'', ''riskScore'', ''categoryScores'', ''timestamp'',
                      ''outcome'', ''amount'', ''closeDate'', ''recordedAt'',
                      ''target_risk'', ''target_win'', ''is_closed''])"
    and l: "length (rows out) = length (rows (tenant_filter None T))"
    and n: "\<forall>c\<in>set [''riskScore'', ''categoryScores'', ''timestamp'', ''outcome'', ''amount'',
                         ''closeDate'', ''recordedAt''].
                 c \<notin> set (columns ?M) \<longrightarrow> (\<forall>r\<in>set (rows out). r c = Some Null)"
    by blast
  from c0 ne have c: "columns out = [''tenantId'', ''opportunityId'', ''riskScore'', ''categoryScores'', ''timestamp'',
                      ''outcome'', ''amount'', ''closeDate'', ''recordedAt'',
                      ''target_risk'', ''target_win'', ''is_closed'']"
    by (simp only: if_False)
  from l len have "rows out ! 0 \<in> set (rows out)" by simp
  with n na have "(rows out ! 0) ''amount'' = Some Null" by simp
  with T o c l len show ?thesis by (intro exI [of _ T] exI [of _ out]) simp
qed

section \<open>Exit status\<close>

lemma main_InrD:
  "main fs a ev oc = Inr w \<Longrightarrow>
   \<exists>E Oc M T. ev = Some E \<and> oc = Some Oc \<and> joiner E Oc = Inr M \<and> derive_targets M = Inr T"
  by (auto simp: main_def split: option.splits sum.splits)

lemma joinerD:
  assumes "joiner E Oc = Inr M"
  shows "\<exists>O'. M = join_tables E O'" and "''tenantId'' \<in> set (columns E)" and "\<not> df_empty E"
proof -
  from joiner_InrD [OF assms] obtain O' where n: "normalize_keys E Oc = Inr O'" and m: "M = join_tables E O'"
    by blast
  from m show "\<exists>O'. M = join_tables E O'" ..
  from n show "\<not> df_empty E"
    by (auto simp: normalize_keys_def split: if_splits)
  from n have "first_missing [''tenantId'', ''opportunityId''] E = None"
    by (auto simp: normalize_keys_def split: if_splits option.splits)
  then show "''tenantId'' \<in> set (columns E)"
    by (auto simp: first_missing_def split: list.splits if_splits)
qed

lemma tenant_cells:
  assumes "joiner E Oc = Inr M" "derive_targets M = Inr T"
  shows "map (\<lambda>r. cell_at r ''tenantId'') (rows T) = map (\<lambda>r. cell_at r ''tenantId'') (rows E)"
proof -
  from joinerD [OF assms(1)] obtain O' where M: "M = join_tables E O'"
    and t: "''tenantId'' \<in> set (columns E)" by blast
  have ne: "\<not> endswith ''tenantId'' ''_out''" by (simp add: endswith_def)
  have "map (\<lambda>r. cell_at r ''tenantId'') (rows M) = map (\<lambda>r. cell_at r ''tenantId'') (rows E)"
  proof (rule nth_equalityI)
    show "length (map (\<lambda>r. cell_at r ''tenantId'') (rows M)) = length (map (\<lambda>r. cell_at r ''tenantId'') (rows E))"
      by (simp add: M length_join_tables)
  next
    fix i assume "i < length (map (\<lambda>r. cell_at r ''tenantId'') (rows M))"
    then have i: "i < length (rows E)" by (simp add: M length_join_tables)
    from join_tables_left_cell [OF i t ne, of O']
    have "cell_at (rows M ! i) ''tenantId'' = cell_at (rows E ! i) ''tenantId''"
      by (simp add: M cell_at_def)
    with i show "map (\<lambda>r. cell_at r ''tenantId'') (rows M) ! i = map (\<lambda>r. cell_at r ''tenantId'') (rows E) ! i"
      by (simp add: M length_join_tables)
  qed
  moreover have "cell_at (derived_row M r) ''tenantId'' = cell_at r ''tenantId''" for r
    by (simp add: derived_row_def cell_at_upd)
  ultimately show ?thesis
    by (simp add: derive_targets_InrD(1) [OF assms(2)] comp_def)
qed

lemma length_tenant_filter:
  assumes "joiner E Oc = Inr M" "derive_targets M = Inr T"
  shows "length (rows (tenant_filter tid T)) = length (rows (tenant_filter tid E))"
proof -
  have cT: "''tenantId'' \<in> set (columns T)"
    using joiner_key_columns(1) [OF assms(1)] by (simp add: derive_targets_InrD(2) [OF assms(2)])
  have cE: "''tenantId'' \<in> set (columns E)"
    using joinerD(2) [OF assms(1)] .
  have "length (filter (\<lambda>r. cell_at r ''tenantId'' = v) (rows T))
      = length (filter (\<lambda>r. cell_at r ''tenantId'' = v) (rows E))" for v
  proof -
    have h: "length (filter (\<lambda>r. cell_at r ''tenantId'' = v) rs)
        = length (filter (\<lambda>x. x = v) (map (\<lambda>r. cell_at r ''tenantId'') rs))" for rs :: "row list"
      by (simp add: filter_map comp_def)
    show ?thesis by (simp only: h tenant_cells [OF assms])
  qed
  moreover have "length (rows T) = length (rows E)"
    using arg_cong [OF tenant_cells [OF assms], of length] by simp
  ultimately show ?thesis
    by (simp add: rows_tenant_filter cT cE split: option.splits)
qed

lemma rows_written_outcome_joined:
  assumes "joiner E Oc = Inr M" "derive_targets M = Inr T" "model a = Outcome_joined"
    and "main fs a (Some E) (Some Oc) = Inr w"
  shows "rows_written (main fs a (Some E) (Some Oc)) = length (rows (tenant_filter (tenant_id a) E))"
proof -
  from assms(4) have "length (rows (frame w)) = length (rows (tenant_filter (tenant_id a) T))"
    unfolding main_outcome_joined [OF assms(1,2,3)]
    by (auto dest: write_parquet_InrD)
  then show ?thesis
    by (simp add: assms(4) rows_written_def length_tenant_filter [OF assms(1,2)])
qed

lemma scenario_A_written:
  assumes "derive_targets (join_tables scenario_A_evals scenario_A_outcomes_keyed) = Inr T"
    and "model a = Outcome_joined"
  shows "\<exists>w. main local_fs a (Some scenario_A_evals) (Some scenario_A_outcomes) = Inr w"
  using main_outcome_joined_typed [OF scenario_A_joined assms scenario_A_typed(1,2) local_fs_writes]
  by blast

lemma exit_code_zero_iff: "(exit_code r = 0) = (\<exists>w. r = Inr w)"
  by (cases r) (simp_all add: exit_code_def)

lemma main_needs_writable:
  "main fs a ev oc = Inr w \<Longrightarrow> writable fs (resolve_path fs (partition_date a) (output_path a))"
  by (auto simp: main_def write_parquet_def split: option.splits sum.splits if_splits)

text \<open>A run that fails in the writer: the outcome frame has a column \<^verbatim>\<open>amount\<close> of
  strings with a null; in \<^verbatim>\<open>risk_scoring\<close> mode line 152 fills the null with 0, and
  \<^verbatim>\<open>to_parquet\<close> raises on the column.\<close>

lemma risk_scoring_row_amount:
  "''amount'' \<in> set (columns t) \<Longrightarrow>
   cell_at (risk_scoring_row t r) ''amount'' = fillna (Num 0) (cell_at r ''amount'')"
  unfolding risk_scoring_row_def cell_at_def restrict_apply
  by (simp add: req_risk_def)

lemma string_amount_joined:
  "joiner string_amount_evals string_amount_outcomes
     = Inr (join_tables string_amount_evals string_amount_outcomes)"
proof (rule joiner_ok)
  show "normalize_keys string_amount_evals string_amount_outcomes = Inr string_amount_outcomes"
    by (simp add: normalize_keys_def df_empty_def first_missing_def string_amount_evals_def
          string_amount_outcomes_def)
  show "\<not> incompatible_keys join_keys string_amount_evals string_amount_outcomes"
    by (simp add: incompatible_keys_def string_column_def join_keys_def cell_at_def is_str_def
          string_amount_evals_def string_amount_outcomes_def)
  show "distinct (columns string_amount_evals @ map (right_label (columns string_amount_evals))
          (filter (\<lambda>c. c \<notin> set join_keys) (columns string_amount_outcomes)))"
    by (simp add: right_label_def join_keys_def string_amount_evals_def string_amount_outcomes_def)
qed

lemma string_amount_not_written:
  "main local_fs (plain_args Risk_scoring) (Some string_amount_evals) (Some string_amount_outcomes)
     = Inl ArrowError"
proof -
  let ?M = "join_tables string_amount_evals string_amount_outcomes"
  have cols: "columns ?M = [''tenantId'', ''opportunityId'', ''riskScore'', ''outcome'', ''amount'']"
    by (simp add: columns_join_tables string_amount_evals_def string_amount_outcomes_def
          join_keys_def right_label_def endswith_def)
  have "\<exists>r1 r2. rows ?M = [r1, r2]
          \<and> cell_at r1 ''amount'' = Str ''100'' \<and> cell_at r1 ''riskScore'' = Num 0.3
          \<and> cell_at r2 ''amount'' = Null \<and> cell_at r2 ''riskScore'' = Num 0.6"
    by (simp add: string_amount_evals_def string_amount_outcomes_def join_tables_def
          without_out_columns_def merged_frame_def drop_duplicates_def join_keys_def key_of_def
          cell_at_def merged_row_def right_label_def endswith_def without_column_def Let_def
          promote_def unmatched_def upcast_cell_def)
  then obtain r1 r2 where rs: "rows ?M = [r1, r2]"
    and c1: "cell_at r1 ''amount'' = Str ''100''" "cell_at r1 ''riskScore'' = Num 0.3"
    and c2: "cell_at r2 ''amount'' = Null" "cell_at r2 ''riskScore'' = Num 0.6"
    by blast
  have "\<forall>r\<in>set (rows ?M). \<not> is_str (column_get ?M ''riskScore'' r)"
    using c1 c2 by (simp add: rs column_get_def cols is_str_def)
  moreover have "''outcome'' \<in> set (columns ?M)" by (simp add: cols)
  ultimately obtain T where d: "derive_targets ?M = Inr T"
    using derive_targets_ok [of ?M] by blast
  have m: "model (plain_args Risk_scoring) = Risk_scoring"
    and tid: "tenant_id (plain_args Risk_scoring) = None"
    by (simp_all add: plain_args_def)
  have F: "tenant_filter None T = T"
    by (simp add: tenant_filter_def)
  have am: "''amount'' \<in> set (columns T)"
    by (simp add: derive_targets_InrD(2) [OF d] cols)
  let ?d1 = "derived_row ?M r1" and ?d2 = "derived_row ?M r2"
  have rT: "rows T = [?d1, ?d2]"
    by (simp add: derive_targets_InrD(1) [OF d] rs)
  have t1: "cell_at ?d1 ''target_risk'' \<noteq> Null" and t2: "cell_at ?d2 ''target_risk'' \<noteq> Null"
    using c1 c2
    by (simp_all add: derived_row_def cell_at_upd column_get_def cols clip01_def notna_def)
  have a1: "cell_at ?d1 ''amount'' = Str ''100''" and a2: "cell_at ?d2 ''amount'' = Null"
    using c1 c2 by (simp_all add: derived_row_cell)
  let ?out = "\<lparr>columns = [''tenantId'', ''opportunityId''] @ req_risk @ [''risk_score_latest''],
               rows = map (risk_scoring_row T)
                        (filter (\<lambda>r. cell_at r ''target_risk'' \<noteq> Null) (rows T))\<rparr>"
  have ro: "rows ?out = [risk_scoring_row T ?d1, risk_scoring_row T ?d2]"
    using t1 t2 by (simp add: rT)
  have "is_str (cell_at (risk_scoring_row T ?d1) ''amount'')"
    and "is_num (cell_at (risk_scoring_row T ?d2) ''amount'')"
    by (simp_all add: risk_scoring_row_amount [OF am] a1 a2 fillna_def is_str_def is_num_def)
  then have mixed: "mixed_column ?out ''amount''"
    unfolding mixed_column_iff ro by auto
  have inc: "''amount'' \<in> set (columns ?out)"
    by (simp add: req_risk_def)
  have ne: "filter (\<lambda>r. cell_at r ''target_risk'' \<noteq> Null) (rows T) \<noteq> []"
    using t1 by (simp add: rT)
  show ?thesis
    unfolding main_risk_scoring [OF string_amount_joined d m] tid F
    using ne write_parquet_mixed [OF local_fs_writes(1) inc mixed] by simp
qed

text \<open>
  C7, as stated, fails: in \<^verbatim>\<open>outcome_joined\<close> mode with a tenant filter that matches no
  row, the run writes a frame without rows and exits with status 0.
\<close>

theorem empty_output_exits_zero:
  "exit_code (main local_fs other_tenant_args (Some scenario_A_evals) (Some scenario_A_outcomes)) = 0
   \<and> rows_written (main local_fs other_tenant_args (Some scenario_A_evals) (Some scenario_A_outcomes)) = 0"
proof -
  from scenario_A_targets obtain T
    where T: "derive_targets (join_tables scenario_A_evals scenario_A_outcomes_keyed) = Inr T" ..
  have m: "model other_tenant_args = Outcome_joined"
    by (simp add: other_tenant_args_def)
  from scenario_A_written [OF T m] obtain w
    where w: "main local_fs other_tenant_args (Some scenario_A_evals) (Some scenario_A_outcomes) = Inr w" ..
  have "length (rows (tenant_filter (tenant_id other_tenant_args) scenario_A_evals)) = 0"
    by (simp add: rows_tenant_filter other_tenant_args_def scenario_A_evals_def cell_at_def)
  with rows_written_outcome_joined [OF scenario_A_joined T m w] w show ?thesis
    by (simp add: exit_code_def)
qed

text \<open>
  C7, amended. The run exits with status 0 exactly when it has written its output frame, and
  with status 1 otherwise: when an input cannot be read, when the evaluation frame is empty
  or lacks a key column, when the outcome frame lacks \<^verbatim>\<open>opportunityId\<close>, when the
  destination cannot be written. In the modes \<^verbatim>\<open>risk_scoring\<close> and
  \<^verbatim>\<open>win_probability\<close> status 0 means that at least one row was written. In
  \<^verbatim>\<open>outcome_joined\<close> mode the frame written has one row for each evaluation row that
  passes the tenant filter, which may be none.
\<close>

theorem exit_code_contract:
  "(exit_code (main fs a ev oc) = 0) = (\<exists>w. main fs a ev oc = Inr w)
   \<and> (exit_code (main fs a ev oc) \<noteq> 0 \<longrightarrow> exit_code (main fs a ev oc) = 1)
   \<and> (model a \<noteq> Outcome_joined \<longrightarrow> exit_code (main fs a ev oc) = 0 \<longrightarrow>
        1 \<le> rows_written (main fs a ev oc))
   \<and> (model a = Outcome_joined \<longrightarrow> ev = Some E \<longrightarrow> exit_code (main fs a ev oc) = 0 \<longrightarrow>
        rows_written (main fs a ev oc) = length (rows (tenant_filter (tenant_id a) E)))
   \<and> (ev = None \<or> oc = None \<longrightarrow> exit_code (main fs a ev oc) = 1)
   \<and> (ev = Some E \<longrightarrow> oc = Some Oc \<longrightarrow>
        df_empty E \<or> ''tenantId'' \<notin> set (columns E) \<or> ''opportunityId'' \<notin> set (columns E)
          \<or> ''opportunityId'' \<notin> set (columns Oc) \<longrightarrow>
        exit_code (main fs a ev oc) = 1)
   \<and> (\<not> writable fs (resolve_path fs (partition_date a) (output_path a)) \<longrightarrow>
        exit_code (main fs a ev oc) = 1)"
proof -
  have one: "exit_code r = 1" if "\<forall>w. r \<noteq> Inr w" for r
    using that by (cases r) (simp_all add: exit_code_def)
  have p1: "(exit_code (main fs a ev oc) = 0) = (\<exists>w. main fs a ev oc = Inr w)"
    by (rule exit_code_zero_iff)
  have p2: "exit_code (main fs a ev oc) \<noteq> 0 \<longrightarrow> exit_code (main fs a ev oc) = 1"
    by (cases "main fs a ev oc") (simp_all add: exit_code_def)
  have p3: "model a \<noteq> Outcome_joined \<longrightarrow> exit_code (main fs a ev oc) = 0 \<longrightarrow>
        1 \<le> rows_written (main fs a ev oc)"
  proof (intro impI)
    assume mode: "model a \<noteq> Outcome_joined" and "exit_code (main fs a ev oc) = 0"
    then obtain w where w: "main fs a ev oc = Inr w" by (auto simp: exit_code_zero_iff)
    from main_InrD [OF w] obtain E' Oc' M T where ev: "ev = Some E'" and oc: "oc = Some Oc'"
      and j: "joiner E' Oc' = Inr M" and d: "derive_targets M = Inr T" by blast
    from mode consider "model a = Risk_scoring" | "model a = Win_probability"
      by (cases "model a") auto
    then show "1 \<le> rows_written (main fs a ev oc)"
    proof cases
      case 1
      from w show ?thesis
        unfolding ev oc main_risk_scoring [OF j d 1]
        by (auto simp: write_parquet_def rows_written_def Suc_le_eq split: if_splits)
    next
      case 2
      from w show ?thesis
        unfolding ev oc main_win_probability [OF j d 2]
        by (auto simp: write_parquet_def rows_written_def Suc_le_eq split: if_splits)
    qed
  qed
  have p4: "model a = Outcome_joined \<longrightarrow> ev = Some E \<longrightarrow> exit_code (main fs a ev oc) = 0 \<longrightarrow>
        rows_written (main fs a ev oc) = length (rows (tenant_filter (tenant_id a) E))"
  proof (intro impI)
    assume mode: "model a = Outcome_joined" and ev: "ev = Some E"
      and "exit_code (main fs a ev oc) = 0"
    then obtain w where w: "main fs a ev oc = Inr w" by (auto simp: exit_code_zero_iff)
    from main_InrD [OF w] ev obtain Oc' M T where oc: "oc = Some Oc'"
      and j: "joiner E Oc' = Inr M" and d: "derive_targets M = Inr T" by auto
    from rows_written_outcome_joined [OF j d mode w [unfolded ev oc]]
    show "rows_written (main fs a ev oc) = length (rows (tenant_filter (tenant_id a) E))"
      by (simp add: ev oc)
  qed
  have p5: "ev = None \<or> oc = None \<longrightarrow> exit_code (main fs a ev oc) = 1"
    by (auto simp: main_def exit_code_def split: option.splits)
  have p6: "ev = Some E \<longrightarrow> oc = Some Oc \<longrightarrow>
        df_empty E \<or> ''tenantId'' \<notin> set (columns E) \<or> ''opportunityId'' \<notin> set (columns E)
          \<or> ''opportunityId'' \<notin> set (columns Oc) \<longrightarrow>
        exit_code (main fs a ev oc) = 1"
  proof (intro impI)
    assume ev: "ev = Some E" and oc: "oc = Some Oc"
      and bad: "df_empty E \<or> ''tenantId'' \<notin> set (columns E) \<or> ''opportunityId'' \<notin> set (columns E)
          \<or> ''opportunityId'' \<notin> set (columns Oc)"
    have "\<exists>e. normalize_keys E Oc = Inl e"
      using bad by (auto simp: normalize_keys_def first_missing_def split: option.splits)
    then have "\<exists>e. main fs a ev oc = Inl e"
      by (auto simp: main_def joiner_def ev oc)
    then show "exit_code (main fs a ev oc) = 1"
      by (auto simp: exit_code_def)
  qed
  have p7: "\<not> writable fs (resolve_path fs (partition_date a) (output_path a)) \<longrightarrow>
        exit_code (main fs a ev oc) = 1"
    using main_needs_writable [of fs a ev oc] one [of "main fs a ev oc"] by blast
  from p1 p2 p3 p4 p5 p6 p7 show ?thesis by (intro conjI)
qed

theorem exit_code_contract_witness:
  "exit_code (main local_fs (plain_args Outcome_joined) (Some scenario_A_evals) (Some scenario_A_outcomes)) = 0
   \<and> rows_written (main local_fs (plain_args Outcome_joined) (Some scenario_A_evals)
        (Some scenario_A_outcomes)) = 3"
proof -
  let ?a = "plain_args Outcome_joined"
  from scenario_A_targets obtain T
    where T: "derive_targets (join_tables scenario_A_evals scenario_A_outcomes_keyed) = Inr T" ..
  have m: "model ?a = Outcome_joined"
    by (simp add: plain_args_def)
  from scenario_A_written [OF T m]
  have e: "exit_code (main local_fs ?a (Some scenario_A_evals) (Some scenario_A_outcomes)) = 0"
    by (auto simp: exit_code_def)
  have l: "length (rows (tenant_filter (tenant_id ?a) scenario_A_evals)) = 3"
    by (simp add: rows_tenant_filter plain_args_def scenario_A_evals_def)
  from exit_code_contract [of local_fs ?a "Some scenario_A_evals" "Some scenario_A_outcomes" scenario_A_evals]
  have "model ?a = Outcome_joined \<longrightarrow> Some scenario_A_evals = Some scenario_A_evals \<longrightarrow>
        exit_code (main local_fs ?a (Some scenario_A_evals) (Some scenario_A_outcomes)) = 0 \<longrightarrow>
        rows_written (main local_fs ?a (Some scenario_A_evals) (Some scenario_A_outcomes))
          = length (rows (tenant_filter (tenant_id ?a) scenario_A_evals))"
    by blast
  with m e l show ?thesis by simp
qed

end
